theory Spec2Isabelle
  imports Main "HOL-Library.Sublist"
begin

section \<open>Composer (inbound-mail/components/compose-dialog.tsx)\<close>

text \<open>
  JavaScript strings are modelled as \<^typ>\<open>string\<close>; a \<^typ>\<open>char\<close> stands for one
  UTF-16 code unit below 256. An optional property (\<^verbatim>\<open>originalSubject?: string\<close>) is an
  \<^typ>\<open>string option\<close>, with \<^term>\<open>None\<close> for \<^verbatim>\<open>undefined\<close>.
\<close>

datatype compose_mode = Compose | Reply

record reply_data =
  emailId :: string
  originalSubject :: "string option"
  originalSender :: "string option"
  replyAll :: "bool option"

record form_data =
  to :: string
  cc :: string
  bcc :: string
  subject :: string
  body :: string

text \<open>\<^verbatim>\<open>s.startsWith(p)\<close>\<close>

definition startsWith :: "string \<Rightarrow> string \<Rightarrow> bool" where
  "startsWith s p = prefix p s"

text \<open>\<^verbatim>\<open>x || d\<close> on an optional string: the empty string and \<^verbatim>\<open>undefined\<close> are falsy.\<close>

definition str_or :: "string option \<Rightarrow> string \<Rightarrow> string" where
  "str_or x d = (case x of None \<Rightarrow> d | Some s \<Rightarrow> if s = [] then d else s)"

text \<open>
  The subject expression of the effect:
  \<^verbatim>\<open>replyData.originalSubject?.startsWith('Re: ') ? replyData.originalSubject
     : `Re: ${replyData.originalSubject || 'No Subject'}`\<close>.
  The optional call yields \<^verbatim>\<open>undefined\<close> (falsy) when the subject is absent.
\<close>

definition reply_subject :: "string option \<Rightarrow> string" where
  "reply_subject os =
     (case os of
        Some s \<Rightarrow> if startsWith s ''Re: '' then s else ''Re: '' @ str_or os ''No Subject''
      | None \<Rightarrow> ''Re: '' @ str_or os ''No Subject'')"

text \<open>The form reset effect: the value passed to \<^verbatim>\<open>setFormData\<close>.\<close>

definition reset_form :: "compose_mode \<Rightarrow> reply_data option \<Rightarrow> form_data" where
  "reset_form mode replyData =
     (case (mode, replyData) of
        (Reply, Some rd) \<Rightarrow>
          \<lparr> to = str_or (originalSender rd) [], cc = [], bcc = [],
            subject = reply_subject (originalSubject rd), body = [] \<rparr>
      | _ \<Rightarrow> \<lparr> to = [], cc = [], bcc = [], subject = [], body = [] \<rparr>)"

section \<open>Strings and regular expressions\<close>

text \<open>\<^verbatim>\<open>s.endsWith(p)\<close>, \<^verbatim>\<open>s.includes(p)\<close>\<close>

definition endsWith :: "string \<Rightarrow> string \<Rightarrow> bool" where
  "endsWith s p = suffix p s"

fun js_includes :: "string \<Rightarrow> string \<Rightarrow> bool" where
  "js_includes [] p = (p = [])"
| "js_includes (x # xs) p = (prefix p (x # xs) \<or> js_includes xs p)"

text \<open>
  White space of \<^verbatim>\<open>\s\<close> and of \<^verbatim>\<open>trim()\<close> among the code units below 256:
  TAB, LF, VT, FF, CR, space and the no-break space.
\<close>

definition is_space :: "char \<Rightarrow> bool" where
  "is_space c = (of_char c \<in> {9, 10, 11, 12, 13, 32, 160 :: nat})"

definition is_digit :: "char \<Rightarrow> bool" where
  "is_digit c = (48 \<le> (of_char c :: nat) \<and> (of_char c :: nat) \<le> 57)"

definition is_upper :: "char \<Rightarrow> bool" where
  "is_upper c = (65 \<le> (of_char c :: nat) \<and> (of_char c :: nat) \<le> 90)"

definition is_lower :: "char \<Rightarrow> bool" where
  "is_lower c = (97 \<le> (of_char c :: nat) \<and> (of_char c :: nat) \<le> 122)"

definition is_alpha :: "char \<Rightarrow> bool" where
  "is_alpha c = (is_upper c \<or> is_lower c)"

text \<open>The class \<^verbatim>\<open>[a-zA-Z0-9-]\<close>.\<close>

definition is_label_char :: "char \<Rightarrow> bool" where
  "is_label_char c = (is_alpha c \<or> is_digit c \<or> c = CHR ''-'')"

text \<open>The dot of a pattern without the \<^verbatim>\<open>s\<close> flag: any code unit but LF and CR.\<close>

definition is_dot :: "char \<Rightarrow> bool" where
  "is_dot c = (of_char c \<notin> {10, 13 :: nat})"

text \<open>
  Case folding of the \<^verbatim>\<open>i\<close> flag. Every letter of the patterns below is ASCII, and
  no code unit above 127 folds to an ASCII one, so folding the ASCII letters is exact.
\<close>

definition fold_case :: "nat \<Rightarrow> nat" where
  "fold_case k = (if 65 \<le> k \<and> k \<le> 90 then k + 32 else k)"

definition ci_eq :: "char \<Rightarrow> char \<Rightarrow> bool" where
  "ci_eq c x = (fold_case (of_char x) = fold_case (of_char c))"

definition js_trim :: "string \<Rightarrow> string" where
  "js_trim s = rev (dropWhile is_space (rev (dropWhile is_space s)))"

text \<open>
  \<^verbatim>\<open>s.split(sep)\<close> for a non-empty separator: scanning from the left, each occurrence
  of the separator closes a piece.
\<close>

function js_split :: "string \<Rightarrow> string \<Rightarrow> string list" where
  "js_split sep [] = [[]]"
| "js_split sep (x # xs) =
     (if sep \<noteq> [] \<and> prefix sep (x # xs)
      then [] # js_split sep (drop (length sep) (x # xs))
      else (x # hd (js_split sep xs)) # tl (js_split sep xs))"
  by pat_completeness auto
termination
  by (relation "measure (\<lambda>(sep, s). length s)") (auto simp: neq_Nil_conv)

text \<open>\<^verbatim>\<open>xs.join(sep)\<close>\<close>

fun js_join :: "string \<Rightarrow> string list \<Rightarrow> string" where
  "js_join sep [] = []"
| "js_join sep [x] = x"
| "js_join sep (x # y # ys) = x @ sep @ js_join sep (y # ys)"

text \<open>
  Regular expressions as the patterns of the source are built. A quantifier is greedy
  or lazy (\<^verbatim>\<open>*?\<close>); \<open>Look\<close> is the lookahead \<^verbatim>\<open>(?=...)\<close>, \<open>Bol\<close> and \<open>Eol\<close> are
  \<^verbatim>\<open>^\<close> and \<^verbatim>\<open>$\<close> without the \<^verbatim>\<open>m\<close> flag.
\<close>

datatype quant = Greedy | Lazy

datatype re =
    Chr "char \<Rightarrow> bool"
  | Eps
  | Bol
  | Eol
  | Seq re re
  | Alt re re
  | Star quant re
  | Look re

text \<open>
  The backtracking matcher: \<open>ms n r s\<close> lists, in the order in which backtracking
  tries them, the rests of the input \<open>s\<close> after each way of matching \<open>r\<close> at the start
  of \<open>s\<close>; \<open>n\<close> is the length of the whole input, so that \<open>s\<close> is at its
  start when \<open>length s = n\<close>. The first element is the match that the engine returns.
  An iteration of a star that consumes nothing is refused, as ECMAScript does.
\<close>

function ms :: "nat \<Rightarrow> re \<Rightarrow> string \<Rightarrow> string list" where
  "ms n (Chr P) s = (case s of [] \<Rightarrow> [] | x # xs \<Rightarrow> if P x then [xs] else [])"
| "ms n Eps s = [s]"
| "ms n Bol s = (if length s = n then [s] else [])"
| "ms n Eol s = (if s = [] then [s] else [])"
| "ms n (Seq a b) s = concat (map (ms n b) (ms n a s))"
| "ms n (Alt a b) s = ms n a s @ ms n b s"
| "ms n (Star Greedy a) s =
     concat (map (\<lambda>t. if length t < length s then ms n (Star Greedy a) t else [])
                 (ms n a s)) @ [s]"
| "ms n (Star Lazy a) s =
     s # concat (map (\<lambda>t. if length t < length s then ms n (Star Lazy a) t else [])
                     (ms n a s))"
| "ms n (Look a) s = (if ms n a s = [] then [] else [s])"
  by pat_completeness auto
termination
  by (relation "inv_image (less_than <*lex*> less_than) (\<lambda>(n, r, s). (size r, length s))")
     auto

text \<open>The equations of the star unfold without end; they are applied by hand.\<close>

declare ms.simps(7,8) [simp del]

text \<open>\<^verbatim>\<open>re.test(s)\<close>: a match at some start index, tried from the left.\<close>

definition regex_test :: "re \<Rightarrow> string \<Rightarrow> bool" where
  "regex_test r s = list_ex (\<lambda>i. ms (length s) r (drop i s) \<noteq> []) [0 ..< Suc (length s)]"

text \<open>
  \<^verbatim>\<open>s.replace(re, rep)\<close> with the \<^verbatim>\<open>g\<close> flag, for a replacement without \<^verbatim>\<open>$\<close>:
  at each index the first match is replaced and the scan goes on after it; where
  nothing matches the code unit is copied; after an empty match the scan advances by one.
\<close>

function replace_from :: "nat \<Rightarrow> re \<Rightarrow> string \<Rightarrow> string \<Rightarrow> string" where
  "replace_from n r rep s =
     (case ms n r s of
        [] \<Rightarrow> (case s of [] \<Rightarrow> [] | x # xs \<Rightarrow> x # replace_from n r rep xs)
      | t # _ \<Rightarrow>
          if length t < length s then rep @ replace_from n r rep t
          else (case s of [] \<Rightarrow> rep | x # xs \<Rightarrow> rep @ x # replace_from n r rep xs))"
  by pat_completeness auto
termination
  by (relation "measure (\<lambda>(n, r, rep, s). length s)") auto

declare replace_from.simps [simp del]

definition replace_all :: "re \<Rightarrow> string \<Rightarrow> string \<Rightarrow> string" where
  "replace_all r rep s = replace_from (length s) r rep s"

text \<open>\<^verbatim>\<open>s.replace(pat, rep)\<close> with a string pattern: the first occurrence only.\<close>

fun replace_first :: "string \<Rightarrow> string \<Rightarrow> string \<Rightarrow> string" where
  "replace_first pat rep [] = (if pat = [] then rep else [])"
| "replace_first pat rep (x # xs) =
     (if prefix pat (x # xs) then rep @ drop (length pat) (x # xs)
      else x # replace_first pat rep xs)"

text \<open>Pattern building: a sequence, a literal, a literal under the \<^verbatim>\<open>i\<close> flag, \<^verbatim>\<open>+\<close>, \<^verbatim>\<open>{k,}\<close>.\<close>

definition seq :: "re list \<Rightarrow> re" where
  "seq rs = foldr Seq rs Eps"

definition lit :: "string \<Rightarrow> re" where
  "lit w = seq (map (\<lambda>c. Chr (\<lambda>x. x = c)) w)"

definition lit_i :: "string \<Rightarrow> re" where
  "lit_i w = seq (map (\<lambda>c. Chr (ci_eq c)) w)"

definition plus :: "quant \<Rightarrow> re \<Rightarrow> re" where
  "plus q r = Seq r (Star q r)"

definition at_least :: "nat \<Rightarrow> quant \<Rightarrow> re \<Rightarrow> re" where
  "at_least k q r = seq (replicate k r @ [Star q r])"




definition heads :: "'a \<Rightarrow> 'a list \<Rightarrow> bool" where
  "heads x xs = (xs = [] \<or> hd xs = x)"

section \<open>Forward stripping (the PDF webhook's \<^verbatim>\<open>removeForwardedContent\<close>)\<close>

definition any_char :: "char \<Rightarrow> bool" where
  "any_char c = True"

definition not_gt :: "char \<Rightarrow> bool" where
  "not_gt c = (c \<noteq> CHR ''>'')"

definition not_dq :: "char \<Rightarrow> bool" where
  "not_dq c = (c \<noteq> CHR 0x22)"

definition is_hyphen :: "char \<Rightarrow> bool" where
  "is_hyphen c = (c = CHR ''-'')"

text \<open>
  \<^verbatim>\<open>/<div[^>]*class="[^"]*NAME[^"]*"[^>]*>[\s\S]*?<\/div>/gi\<close>, the shape of the
  seven class patterns.
\<close>

definition div_class_re :: "string \<Rightarrow> re" where
  \<open>div_class_re name =
     seq [lit_i ''<div'', Star Greedy (Chr not_gt), lit_i ''class="'',
          Star Greedy (Chr not_dq), lit_i name, Star Greedy (Chr not_dq), lit_i ''"'',
          Star Greedy (Chr not_gt), lit_i ''>'', Star Lazy (Chr any_char),
          lit_i ''</div>'']\<close>


text \<open>\<^verbatim>\<open>/<blockquote[^>]*>[\s\S]*?<\/blockquote>/gi\<close>\<close>

definition blockquote_re :: re where
  "blockquote_re =
     seq [lit_i ''<blockquote'', Star Greedy (Chr not_gt), lit_i ''>'',
          Star Lazy (Chr any_char), lit_i ''</blockquote>'']"

text \<open>\<^verbatim>\<open>/[-]{5,}\s*Forwarded\s+message\s*[-]{5,}/gi\<close>\<close>

definition forwarded_re :: re where
  "forwarded_re =
     seq [at_least 5 Greedy (Chr is_hyphen), Star Greedy (Chr is_space), lit_i ''Forwarded'',
          plus Greedy (Chr is_space), lit_i ''message'', Star Greedy (Chr is_space),
          at_least 5 Greedy (Chr is_hyphen)]"

text \<open>\<^verbatim>\<open>/From:[\s\S]*?Sent:[\s\S]*?To:[\s\S]*?Subject:[\s\S]*?(?=<)/gi\<close>\<close>

definition outlook_header_re :: re where
  "outlook_header_re =
     seq [lit_i ''From:'', Star Lazy (Chr any_char), lit_i ''Sent:'',
          Star Lazy (Chr any_char), lit_i ''To:'', Star Lazy (Chr any_char),
          lit_i ''Subject:'', Star Lazy (Chr any_char), Look (lit_i ''<'')]"

text \<open>\<^verbatim>\<open>/[-]{5,}\s*Original\s+Message\s*[-]{5,}/gi\<close>\<close>

definition original_message_re :: re where
  "original_message_re =
     seq [at_least 5 Greedy (Chr is_hyphen), Star Greedy (Chr is_space), lit_i ''Original'',
          plus Greedy (Chr is_space), lit_i ''Message'', Star Greedy (Chr is_space),
          at_least 5 Greedy (Chr is_hyphen)]"

text \<open>\<^verbatim>\<open>/On\s+.+?\s+wrote:/gi\<close>\<close>

definition on_wrote_re :: re where
  "on_wrote_re =
     seq [lit_i ''On'', plus Greedy (Chr is_space), plus Lazy (Chr is_dot),
          plus Greedy (Chr is_space), lit_i ''wrote:'']"

text \<open>\<^verbatim>\<open>/<div[^>]*>\s*<\/div>/gi\<close> and \<^verbatim>\<open>/<p[^>]*>\s*<\/p>/gi\<close>\<close>

definition empty_div_re :: re where
  "empty_div_re =
     seq [lit_i ''<div'', Star Greedy (Chr not_gt), lit_i ''>'', Star Greedy (Chr is_space),
          lit_i ''</div>'']"

definition empty_p_re :: re where
  "empty_p_re =
     seq [lit_i ''<p'', Star Greedy (Chr not_gt), lit_i ''>'', Star Greedy (Chr is_space),
          lit_i ''</p>'']"

text \<open>\<^verbatim>\<open>/\s{2,}/g\<close> and \<^verbatim>\<open>/>\s+</g\<close>\<close>

definition spaces_re :: re where
  "spaces_re = at_least 2 Greedy (Chr is_space)"

definition between_tags_re :: re where
  "between_tags_re = seq [lit ''>'', plus Greedy (Chr is_space), lit ''<'']"

text \<open>The substitutions of \<^verbatim>\<open>removeForwardedContent\<close>, in the order of the source.\<close>

definition strip_quotes :: "string \<Rightarrow> string" where
  "strip_quotes html =
     (let cleaned = html;
          cleaned = replace_all (div_class_re ''gmail_quote'') [] cleaned;
          cleaned = replace_all (div_class_re ''gmail_attr'') [] cleaned;
          cleaned = replace_all (div_class_re ''yahoo_quoted'') [] cleaned;
          cleaned = replace_all (div_class_re ''OutlookMessageHeader'') [] cleaned;
          cleaned = replace_all (div_class_re ''moz-cite-prefix'') [] cleaned;
          cleaned = replace_all blockquote_re [] cleaned;
          cleaned = replace_all (div_class_re ''quote'') [] cleaned;
          cleaned = replace_all (div_class_re ''forward'') [] cleaned
      in cleaned)"

definition strip_separators :: "string \<Rightarrow> string" where
  "strip_separators html =
     (let cleaned = html;
          cleaned = replace_all forwarded_re [] cleaned;
          cleaned = replace_all outlook_header_re [] cleaned;
          cleaned = replace_all original_message_re [] cleaned;
          cleaned = replace_all on_wrote_re [] cleaned
      in cleaned)"

definition clean_up :: "string \<Rightarrow> string" where
  "clean_up html =
     (let cleaned = html;
          cleaned = replace_all empty_div_re [] cleaned;
          cleaned = replace_all empty_p_re [] cleaned;
          cleaned = replace_all spaces_re '' '' cleaned;
          cleaned = replace_all between_tags_re ''><'' cleaned
      in js_trim cleaned)"

definition removeForwardedContent :: "string \<Rightarrow> string" where
  "removeForwardedContent html = clean_up (strip_separators (strip_quotes html))"



section \<open>Domain validator (the wizard's \<^verbatim>\<open>domainSchema\<close>)\<close>

text \<open>
  \<^verbatim>\<open>/^[a-zA-Z0-9-]+(\.[a-zA-Z0-9-]+)+$/\<close>, with its group \<^verbatim>\<open>(\.[a-zA-Z0-9-]+)\<close>, and
  \<^verbatim>\<open>/^[a-zA-Z]{2,}$/\<close>
\<close>

definition dot_group :: re where
  "dot_group = Seq (Chr (\<lambda>x. x = CHR ''.'')) (plus Greedy (Chr is_label_char))"

definition domain_re :: re where
  "domain_re = seq [Bol, plus Greedy (Chr is_label_char), plus Greedy dot_group, Eol]"

definition tld_re :: re where
  "tld_re = seq [Bol, at_least 2 Greedy (Chr is_alpha), Eol]"

text \<open>
  The predicate given to \<^verbatim>\<open>refine\<close>. \<^verbatim>\<open>split\<close> never returns an empty array, so
  \<^verbatim>\<open>pop()\<close> is defined; were it not, \<^verbatim>\<open>match\<close> on \<^verbatim>\<open>undefined\<close> would throw and
  the value would not validate.
\<close>

definition domain_refine :: "string \<Rightarrow> bool" where
  "domain_refine domain =
     (\<not> js_includes domain ''..'' \<and>
      \<not> startsWith domain ''.'' \<and>
      \<not> endsWith domain ''.'' \<and>
      \<not> startsWith domain ''-'' \<and>
      \<not> endsWith domain ''-'' \<and>
      list_all (\<lambda>part. length part > 0 \<and> length part \<le> 63 \<and>
                       \<not> startsWith part ''-'' \<and> \<not> endsWith part ''-'')
               (js_split ''.'' domain) \<and>
      (case rev (js_split ''.'' domain) of
         [] \<Rightarrow> False
       | tld # _ \<Rightarrow> regex_test tld_re tld))"

text \<open>
  The schema \<^verbatim>\<open>z.string().min(1).regex(...).refine(...)\<close> accepts a string when no
  check reports an issue.
\<close>

definition domainSchema :: "string \<Rightarrow> bool" where
  "domainSchema domain =
     (length domain \<ge> 1 \<and> regex_test domain_re domain \<and> domain_refine domain)"

text \<open>
  The validator as the specification words it: a domain is \<open>label(.label)+\<close>, every
  label has 1 to 63 characters, all of them ASCII letters, digits or hyphens, and no
  leading or trailing hyphen, and the top-level label is alphabetic. The least length of
  the top-level label is a parameter.
\<close>

definition spec_label :: "string \<Rightarrow> bool" where
  "spec_label l =
     (1 \<le> length l \<and> length l \<le> 63 \<and> list_all is_label_char l \<and>
      \<not> startsWith l ''-'' \<and> \<not> endsWith l ''-'')"

definition spec_domain :: "nat \<Rightarrow> string \<Rightarrow> bool" where
  "spec_domain tld_min d =
     (let labels = js_split ''.'' d
      in 2 \<le> length labels \<and> list_all spec_label labels \<and>
         list_all is_alpha (last labels) \<and> tld_min \<le> length (last labels))"

text \<open>What the first pattern asks of a label.\<close>

definition label_ok :: "string \<Rightarrow> bool" where
  "label_ok l = (l \<noteq> [] \<and> (\<forall>c \<in> set l. is_label_char c))"

section \<open>JavaScript values, exceptions and HTTP responses\<close>

text \<open>
  Parsed JSON and the other values the handlers meet. An object is an association
  list read with \<^const>\<open>map_of\<close>. Numbers are integers: no claim below computes with
  a fraction.
\<close>

datatype jsval =
    JUndefined
  | JNull
  | JBool bool
  | JNum int
  | JStr string
  | JArr "jsval list"
  | JObj "(string \<times> jsval) list"

text \<open>
  A thrown value: an instance of \<^verbatim>\<open>Error\<close> (or of its subclasses \<^verbatim>\<open>TypeError\<close> and
  \<^verbatim>\<open>SyntaxError\<close>) with its message, or any other value.
\<close>

datatype exn =
    TypeError string
  | SyntaxError string
  | Error string
  | Thrown jsval

text \<open>\<^verbatim>\<open>e instanceof Error ? e.message : d\<close>\<close>

fun message_or :: "exn \<Rightarrow> string \<Rightarrow> string" where
  "message_or (TypeError m) d = m"
| "message_or (SyntaxError m) d = m"
| "message_or (Error m) d = m"
| "message_or (Thrown v) d = d"

fun truthy :: "jsval \<Rightarrow> bool" where
  "truthy JUndefined = False"
| "truthy JNull = False"
| "truthy (JBool b) = b"
| "truthy (JNum k) = (k \<noteq> 0)"
| "truthy (JStr s) = (s \<noteq> [])"
| "truthy (JArr xs) = True"
| "truthy (JObj kvs) = True"

text \<open>The message of the \<^verbatim>\<open>TypeError\<close> of a property read on a nullish value (V8's wording).\<close>

definition cannot_read :: "string \<Rightarrow> string \<Rightarrow> string" where
  "cannot_read what p =
     ''Cannot read properties of '' @ what @ '' (reading '' @ [CHR 0x27] @ p @ [CHR 0x27] @ '')''"

text \<open>
  \<^verbatim>\<open>v.p\<close> for the property names of the source, none of which is inherited from a
  prototype: an own property, the \<^verbatim>\<open>length\<close> of a string or an array, else
  \<^verbatim>\<open>undefined\<close>; a read on \<^verbatim>\<open>undefined\<close> or \<^verbatim>\<open>null\<close> throws.
\<close>

fun get_prop :: "jsval \<Rightarrow> string \<Rightarrow> exn + jsval" where
  "get_prop JUndefined p = Inl (TypeError (cannot_read ''undefined'' p))"
| "get_prop JNull p = Inl (TypeError (cannot_read ''null'' p))"
| "get_prop (JObj kvs) p = Inr (case map_of kvs p of None \<Rightarrow> JUndefined | Some v \<Rightarrow> v)"
| "get_prop (JStr s) p = Inr (if p = ''length'' then JNum (int (length s)) else JUndefined)"
| "get_prop (JArr xs) p = Inr (if p = ''length'' then JNum (int (length xs)) else JUndefined)"
| "get_prop (JBool b) p = Inr JUndefined"
| "get_prop (JNum k) p = Inr JUndefined"

text \<open>\<^verbatim>\<open>v[0]\<close>\<close>

fun get_first :: "jsval \<Rightarrow> exn + jsval" where
  "get_first JUndefined = Inl (TypeError (cannot_read ''undefined'' ''0''))"
| "get_first JNull = Inl (TypeError (cannot_read ''null'' ''0''))"
| "get_first (JArr xs) = Inr (case xs of [] \<Rightarrow> JUndefined | x # _ \<Rightarrow> x)"
| "get_first (JStr s) = Inr (case s of [] \<Rightarrow> JUndefined | c # _ \<Rightarrow> JStr [c])"
| "get_first (JObj kvs) = Inr (case map_of kvs ''0'' of None \<Rightarrow> JUndefined | Some v \<Rightarrow> v)"
| "get_first (JBool b) = Inr JUndefined"
| "get_first (JNum k) = Inr JUndefined"

definition nullish :: "jsval \<Rightarrow> bool" where
  "nullish v = (v = JUndefined \<or> v = JNull)"

text \<open>Sequencing of computations that may throw.\<close>

definition bind_exn :: "(exn + 'a) \<Rightarrow> ('a \<Rightarrow> exn + 'b) \<Rightarrow> exn + 'b" where
  "bind_exn m f = (case m of Inl e \<Rightarrow> Inl e | Inr v \<Rightarrow> f v)"

text \<open>Decimal digits of a number, and \<^verbatim>\<open>String(v)\<close> as template literals and \<^verbatim>\<open>+\<close> apply it.\<close>

function show_nat :: "nat \<Rightarrow> string" where
  "show_nat k =
     (if k < 10 then [''0123456789'' ! k]
      else show_nat (k div 10) @ [''0123456789'' ! (k mod 10)])"
  by pat_completeness auto
termination
  by (relation "measure id") auto

definition show_int :: "int \<Rightarrow> string" where
  "show_int k = (if k < 0 then ''-'' @ show_nat (nat (- k)) else show_nat (nat k))"

fun to_str :: "jsval \<Rightarrow> string" where
  "to_str JUndefined = ''undefined''"
| "to_str JNull = ''null''"
| "to_str (JBool b) = (if b then ''true'' else ''false'')"
| "to_str (JNum k) = show_int k"
| "to_str (JStr s) = s"
| "to_str (JArr xs) =
     js_join '','' (map (\<lambda>x. if x = JUndefined \<or> x = JNull then [] else to_str x) xs)"
| "to_str (JObj kvs) = ''[object Object]''"

text \<open>
  A response of \<^verbatim>\<open>fetch\<close>: status, status text, and what \<^verbatim>\<open>response.json()\<close> gives
  (the parsed body, or the exception of a body that is not JSON). \<^verbatim>\<open>response.ok\<close>
  is true for the statuses 200 to 299. A call of \<^verbatim>\<open>fetch\<close> yields a response or
  throws (a network failure).
\<close>

record http_response =
  resp_status :: nat
  resp_statusText :: string
  resp_json :: "exn + jsval"

definition resp_ok :: "http_response \<Rightarrow> bool" where
  "resp_ok r = (200 \<le> resp_status r \<and> resp_status r \<le> 299)"

section \<open>Gateway client (\<^verbatim>\<open>InboundClient.makeRequest\<close>)\<close>

text \<open>
  \<^verbatim>\<open>if (!response.ok) {
    const error = await response.json().catch(() => ({ error: 'Unknown error' }))
    throw new Error(error.error || `HTTP ${response.status}: ${response.statusText}`)
  }
  return response.json()\<close>
\<close>

definition status_line :: "http_response \<Rightarrow> string" where
  "status_line r = ''HTTP '' @ show_nat (resp_status r) @ '': '' @ resp_statusText r"

definition makeRequest :: "exn + http_response \<Rightarrow> exn + jsval" where
  "makeRequest fetched =
     bind_exn fetched (\<lambda>response.
       if \<not> resp_ok response then
         (let error = (case resp_json response of
                         Inl e \<Rightarrow> JObj [(''error'', JStr ''Unknown error'')]
                       | Inr v \<Rightarrow> v)
          in bind_exn (get_prop error ''error'') (\<lambda>m.
               Inl (Error (to_str (if truthy m then m else JStr (status_line response))))))
       else resp_json response)"

section \<open>Domain setup wizard (\<^verbatim>\<open>DomainsDashboard\<close>)\<close>

text \<open>
  The component's state. \<^verbatim>\<open>domainData\<close> holds whatever JSON the proxy returned
  (\<^term>\<open>JNull\<close> for \<^verbatim>\<open>null\<close>); the step is a JavaScript number.
\<close>

record wizard =
  domainData :: jsval
  isLoading :: bool
  wizardError :: "string option"
  currentStep :: int
  isDnsConfigExpanded :: bool
  isEmailSectionExpanded :: bool
  emailError :: "string option"
  emailSuccess :: "string option"

definition initial_wizard :: wizard where
  "initial_wizard =
     \<lparr> domainData = JNull, isLoading = False, wizardError = None, currentStep = 1,
       isDnsConfigExpanded = True, isEmailSectionExpanded = True,
       emailError = None, emailSuccess = None \<rparr>"

text \<open>\<^verbatim>\<open>localStorage\<close>: \<^verbatim>\<open>getItem\<close> is application, \<^term>\<open>None\<close> is \<^verbatim>\<open>null\<close>.\<close>

type_synonym storage = "string \<Rightarrow> string option"

definition DOMAIN_DATA_KEY :: string where
  "DOMAIN_DATA_KEY = ''inbound_domain_data''"

definition CURRENT_STEP_KEY :: string where
  "CURRENT_STEP_KEY = ''inbound_current_step''"

definition removeItem :: "string \<Rightarrow> storage \<Rightarrow> storage" where
  "removeItem k st = st(k := None)"

definition setItem :: "string \<Rightarrow> string \<Rightarrow> storage \<Rightarrow> storage" where
  "setItem k v st = st(k := Some v)"

text \<open>
  \<^verbatim>\<open>parseInt(s, 10)\<close>: leading white space is skipped, a sign is read, then the
  longest run of digits; \<^term>\<open>None\<close> is \<^verbatim>\<open>NaN\<close>.
\<close>

definition digits_value :: "string \<Rightarrow> int" where
  "digits_value ds = foldl (\<lambda>a c. 10 * a + (int (of_char c) - 48)) 0 ds"

definition parseInt10 :: "string \<Rightarrow> int option" where
  "parseInt10 s =
     (let t = dropWhile is_space s;
          neg = (case t of [] \<Rightarrow> False | c # _ \<Rightarrow> c = CHR ''-'');
          u = (case t of [] \<Rightarrow> [] | c # r \<Rightarrow> if c = CHR ''-'' \<or> c = CHR ''+'' then r else t);
          ds = takeWhile is_digit u
      in if ds = [] then None
         else Some (if neg then - digits_value ds else digits_value ds))"

text \<open>
  The effect that runs on mount. \<open>parse\<close> is \<^verbatim>\<open>JSON.parse\<close>, which returns a value
  or throws; the \<^verbatim>\<open>catch\<close> removes both entries. A stored string is truthy when it is
  not empty.
\<close>

definition load_effect ::
  "(string \<Rightarrow> exn + jsval) \<Rightarrow> storage \<Rightarrow> wizard \<Rightarrow> wizard \<times> storage" where
  "load_effect parse st w =
     (let savedDomainData = st DOMAIN_DATA_KEY;
          savedCurrentStep = st CURRENT_STEP_KEY
      in case (case savedDomainData of
                 None \<Rightarrow> Inr None
               | Some d \<Rightarrow> if d \<noteq> [] then map_sum id Some (parse d) else Inr None) of
           Inl e \<Rightarrow> (w, removeItem CURRENT_STEP_KEY (removeItem DOMAIN_DATA_KEY st))
         | Inr parsed \<Rightarrow>
             (let w1 = (case parsed of None \<Rightarrow> w | Some v \<Rightarrow> w\<lparr>domainData := v\<rparr>);
                  w2 = (case savedCurrentStep of
                          None \<Rightarrow> w1
                        | Some t \<Rightarrow>
                            if t \<noteq> [] then
                              (case parseInt10 t of
                                 None \<Rightarrow> w1
                               | Some parsedStep \<Rightarrow>
                                   if parsedStep \<ge> 1 \<and> parsedStep \<le> 4
                                   then w1\<lparr>currentStep := parsedStep\<rparr> else w1)
                            else w1)
              in (w2, st)))"

text \<open>The two effects that save the state; \<open>stringify\<close> is \<^verbatim>\<open>JSON.stringify\<close>.\<close>

definition save_effects :: "(jsval \<Rightarrow> string) \<Rightarrow> wizard \<Rightarrow> storage \<Rightarrow> storage" where
  "save_effects stringify w st =
     setItem CURRENT_STEP_KEY (show_int (currentStep w))
       (if truthy (domainData w) then setItem DOMAIN_DATA_KEY (stringify (domainData w)) st
        else removeItem DOMAIN_DATA_KEY st)"

definition clearSavedData :: "wizard \<Rightarrow> storage \<Rightarrow> wizard \<times> storage" where
  "clearSavedData w st =
     (w\<lparr> domainData := JNull, currentStep := 1, wizardError := None, emailError := None,
         emailSuccess := None, isDnsConfigExpanded := True, isEmailSectionExpanded := True \<rparr>,
      removeItem CURRENT_STEP_KEY (removeItem DOMAIN_DATA_KEY st))"

text \<open>\<^verbatim>\<open>v?.p\<close>\<close>

definition opt_prop :: "jsval \<Rightarrow> string \<Rightarrow> jsval" where
  "opt_prop v p =
     (if nullish v then JUndefined
      else case get_prop v p of Inl e \<Rightarrow> JUndefined | Inr x \<Rightarrow> x)"

text \<open>
  The error thrown for a response that is not ok:
  \<^verbatim>\<open>const errorData = await response.json();
  throw new Error(errorData.error || `${prefix}${response.statusText}`)\<close>
\<close>

definition not_ok_error :: "string \<Rightarrow> http_response \<Rightarrow> exn" where
  "not_ok_error pre response =
     (case bind_exn (resp_json response) (\<lambda>errorData. get_prop errorData ''error'') of
        Inl e \<Rightarrow> e
      | Inr m \<Rightarrow> Error (to_str (if truthy m then m else JStr (pre @ resp_statusText response))))"

text \<open>
  The \<^verbatim>\<open>try\<close> blocks return the state as far as it was set and the exception that
  ended them, if any; \<^verbatim>\<open>catch\<close> stores its message and \<^verbatim>\<open>finally\<close> clears the
  loading flag. The argument \<open>fetched\<close> is what \<^verbatim>\<open>fetch\<close> yields.
\<close>

definition create_try :: "wizard \<Rightarrow> exn + http_response \<Rightarrow> wizard \<times> exn option" where
  "create_try w fetched =
     (case fetched of
        Inl e \<Rightarrow> (w, Some e)
      | Inr response \<Rightarrow>
          if \<not> resp_ok response
          then (w, Some (not_ok_error ''Failed to create domain: '' response))
          else (case resp_json response of
                  Inl e \<Rightarrow> (w, Some e)
                | Inr result \<Rightarrow> (w\<lparr>domainData := result, currentStep := 2\<rparr>, None)))"

definition catch_finally :: "wizard \<times> exn option \<Rightarrow> wizard" where
  "catch_finally r =
     (case r of
        (w, None) \<Rightarrow> w\<lparr>isLoading := False\<rparr>
      | (w, Some err) \<Rightarrow>
          w\<lparr>wizardError := Some (message_or err ''An error occurred''), isLoading := False\<rparr>)"

definition createDomain :: "wizard \<Rightarrow> exn + http_response \<Rightarrow> wizard" where
  "createDomain w fetched =
     catch_finally (create_try (w\<lparr>isLoading := True, wizardError := None\<rparr>) fetched)"

definition refresh_try :: "wizard \<Rightarrow> exn + http_response \<Rightarrow> wizard \<times> exn option" where
  "refresh_try w fetched =
     (case fetched of
        Inl e \<Rightarrow> (w, Some e)
      | Inr response \<Rightarrow>
          if \<not> resp_ok response
          then (w, Some (not_ok_error ''Failed to refresh domain: '' response))
          else (case resp_json response of
                  Inl e \<Rightarrow> (w, Some e)
                | Inr result \<Rightarrow>
                    (let w1 = w\<lparr>domainData := result\<rparr>
                     in case get_prop result ''status'' of
                          Inl e \<Rightarrow> (w1, Some e)
                        | Inr status \<Rightarrow>
                            if status = JStr ''verified''
                            then (w1\<lparr>currentStep := 4, isDnsConfigExpanded := False\<rparr>, None)
                            else (case get_prop result ''hasMxRecords'' of
                                    Inl e \<Rightarrow> (w1, Some e)
                                  | Inr mx \<Rightarrow>
                                      if truthy mx then (w1\<lparr>currentStep := 3\<rparr>, None)
                                      else (w1, None)))))"

definition refreshDomain :: "wizard \<Rightarrow> exn + http_response \<Rightarrow> wizard" where
  "refreshDomain w fetched =
     (if \<not> truthy (opt_prop (domainData w) ''id'') then w
      else catch_finally (refresh_try (w\<lparr>isLoading := True, wizardError := None\<rparr>) fetched))"

text \<open>
  What can happen to the wizard: the page is loaded with some content of the local
  storage, the domain form is submitted (the schema guards \<^verbatim>\<open>createDomain\<close>), the
  status is refreshed, or the user starts over.
\<close>

datatype event =
    Load storage
  | SubmitDomain string "exn + http_response"
  | RefreshStatus "exn + http_response"
  | StartOver

fun apply_event :: "(string \<Rightarrow> exn + jsval) \<Rightarrow> wizard \<Rightarrow> event \<Rightarrow> wizard" where
  "apply_event parse w (Load st) = fst (load_effect parse st initial_wizard)"
| "apply_event parse w (SubmitDomain domain fetched) =
     (if domainSchema domain then createDomain w fetched else w)"
| "apply_event parse w (RefreshStatus fetched) = refreshDomain w fetched"
| "apply_event parse w StartOver = fst (clearSavedData w (\<lambda>k. None))"

definition run_events :: "(string \<Rightarrow> exn + jsval) \<Rightarrow> event list \<Rightarrow> wizard" where
  "run_events parse evs = foldl (apply_event parse) initial_wizard evs"

section \<open>Webhook receivers (\<^verbatim>\<open>POST /api/inbound\<close>)\<close>

text \<open>What a handler sends: the HTTP status and the JSON body.\<close>

record response =
  res_status :: nat
  res_body :: jsval

definition error_response :: "nat \<Rightarrow> jsval \<Rightarrow> response" where
  "error_response code msg = \<lparr> res_status = code, res_body = JObj [(''error'', msg)] \<rparr>"

subsection \<open>HTML cleanup and token accounting (copymail/index.ts)\<close>

text \<open>
  The libraries are parameters: \<open>cheerio_html\<close> is \<^verbatim>\<open>cheerio.load\<close>, the removal of
  \<^verbatim>\<open>.gmail_attr\<close> and \<^verbatim>\<open>$.html()\<close>; \<open>writeFileSync\<close> is the file write; each may
  throw. The token counts are computed inside their own \<^verbatim>\<open>try\<close>/\<^verbatim>\<open>catch\<close> and only
  logged, so they do not reach the response.
\<close>

record copymail_env =
  cheerio_html :: "jsval \<Rightarrow> exn + jsval"
  writeFileSync :: "string \<Rightarrow> jsval \<Rightarrow> exn option"

definition cleanHtmlBody :: "copymail_env \<Rightarrow> jsval \<Rightarrow> jsval" where
  "cleanHtmlBody env htmlBody =
     (if \<not> truthy htmlBody then JStr []
      else case cheerio_html env htmlBody of Inl e \<Rightarrow> htmlBody | Inr h \<Rightarrow> h)"

definition write_file :: "copymail_env \<Rightarrow> string \<Rightarrow> jsval \<Rightarrow> exn + unit" where
  "write_file env name v = (case writeFileSync env name v of Some e \<Rightarrow> Inl e | None \<Rightarrow> Inr ())"

text \<open>The body of the \<^verbatim>\<open>try\<close>: the response sent, or the exception thrown.\<close>

definition copymail_try :: "copymail_env \<Rightarrow> jsval \<Rightarrow> exn + response" where
  "copymail_try env reqBody =
     (if \<not> truthy reqBody then Inr (error_response 400 (JStr ''Request body is empty''))
      else bind_exn (get_prop reqBody ''email'') (\<lambda>email.
        if \<not> truthy email
        then Inr (error_response 400 (JStr ''Email data not found in request body''))
        else bind_exn (get_prop email ''from'') (\<lambda>sender.
          bind_exn (if nullish sender then Inr JUndefined
                    else bind_exn (get_prop sender ''addresses'') get_first) (\<lambda>logged.
          bind_exn (get_prop email ''parsedData'') (\<lambda>parsedData.
            (let h = opt_prop parsedData ''htmlBody'';
                 originalHtmlBody = (if truthy h then h else JStr []);
                 cleanedHtmlBody = cleanHtmlBody env originalHtmlBody
             in bind_exn (write_file env ''html_body_original.html'' originalHtmlBody) (\<lambda>u.
                bind_exn (write_file env ''html_body_cleaned.html'' cleanedHtmlBody) (\<lambda>u.
                  Inr \<lparr> res_status = 200,
                        res_body = JObj [(''message'',
                                          JStr ''Inbound data received successfully'')] \<rparr>))))))))"

definition copymail_post :: "copymail_env \<Rightarrow> jsval \<Rightarrow> response" where
  "copymail_post env reqBody =
     (case copymail_try env reqBody of
        Inr r \<Rightarrow> r
      | Inl e \<Rightarrow> error_response 500 (JStr ''Internal server error''))"

subsection \<open>Forward stripping and PDF (the Hono worker)\<close>

definition banner :: string where
  \<open>banner =
     ''\<newline>'' @
     ''    <div style="margin-top: 40px; padding: 20px; border-top: 2px solid #e5e7eb; text-align: center; font-family: -apple-system, BlinkMacSystemFont, 'Segoe UI', Roboto, 'Helvetica Neue', Arial, sans-serif;">\<newline>'' @
     ''      <div style="display: inline-flex; align-items: center; justify-content: center; gap: 8px;">\<newline>'' @
     ''        <span style="color: #6b7280; font-size: 14px;">generated via inbound.new</span>\<newline>'' @
     ''        <img src="https://inbound.new/inbound-logo-png.png" alt="Inbound" style="height: 20px; width: 20px; vertical-align: middle;" />\<newline>'' @
     ''      </div>\<newline>'' @
     ''    </div>\<newline>'' @
     ''  ''\<close>

definition addInboundBanner :: "string \<Rightarrow> string" where
  "addInboundBanner html =
     (if js_includes html ''</body>'' then replace_first ''</body>'' (banner @ ''</body>'') html
      else html @ banner)"

definition wrapTextInHTML :: "string \<Rightarrow> string" where
  \<open>wrapTextInHTML text =
     (let paragraphs =
            js_join ''\<newline>''
              (map (\<lambda>p. ''<p>'' @ replace_all (lit ''\<newline>'') ''<br>'' p @ ''</p>'')
                 (filter (\<lambda>p. js_trim p \<noteq> []) (js_split ''\<newline>\<newline>'' text)))
      in ''<!DOCTYPE html>\<newline>'' @
         ''<html lang="en">\<newline>'' @
         ''<head>\<newline>'' @
         ''  <meta charset="UTF-8">\<newline>'' @
         ''  <meta name="viewport" content="width=device-width, initial-scale=1.0">\<newline>'' @
         ''  <title>Document</title>\<newline>'' @
         ''  <style>\<newline>'' @
         ''    body {\<newline>'' @
         ''      font-family: -apple-system, BlinkMacSystemFont, 'Segoe UI', Roboto, 'Helvetica Neue', Arial, sans-serif;\<newline>'' @
         ''      line-height: 1.6;\<newline>'' @
         ''      color: #333;\<newline>'' @
         ''      max-width: 800px;\<newline>'' @
         ''      margin: 40px auto;\<newline>'' @
         ''      padding: 20px;\<newline>'' @
         ''    }\<newline>'' @
         ''    p {\<newline>'' @
         ''      margin-bottom: 1em;\<newline>'' @
         ''    }\<newline>'' @
         ''  </style>\<newline>'' @
         ''</head>\<newline>'' @
         ''<body>\<newline>'' @
         ''  '' @
         paragraphs @
         ''\<newline>'' @
         ''</body>\<newline>'' @
         ''</html>'')\<close>

text \<open>
  A method call on a value that has to be a string (\<^verbatim>\<open>html.replace\<close>,
  \<^verbatim>\<open>text.split\<close>): anything else throws a \<^verbatim>\<open>TypeError\<close>.
\<close>

definition string_receiver :: "string \<Rightarrow> string \<Rightarrow> jsval \<Rightarrow> exn + string" where
  "string_receiver var method v =
     (case v of
        JStr s \<Rightarrow> Inr s
      | JUndefined \<Rightarrow> Inl (TypeError (cannot_read ''undefined'' method))
      | JNull \<Rightarrow> Inl (TypeError (cannot_read ''null'' method))
      | _ \<Rightarrow> Inl (TypeError (var @ ''.'' @ method @ '' is not a function'')))"

text \<open>
  The response of the rendering service: status, status text and what
  \<^verbatim>\<open>arrayBuffer()\<close> gives. The environment of the worker: the SDK's constructor (which
  may throw), the \<^verbatim>\<open>fetch\<close> of the rendering service for a document, and
  \<^verbatim>\<open>inbound.reply\<close> for an email id and a PDF.
\<close>

record render_response =
  render_status :: nat
  render_statusText :: string
  render_arrayBuffer :: "exn + string"

record pdf_env =
  new_Inbound :: "exn option"
  fetch_pdf :: "string \<Rightarrow> exn + render_response"
  inbound_reply :: "jsval \<Rightarrow> string \<Rightarrow> exn + jsval"

definition generatePDFFromHTML :: "pdf_env \<Rightarrow> string \<Rightarrow> exn + string" where
  "generatePDFFromHTML env html =
     bind_exn (fetch_pdf env html) (\<lambda>response.
       if \<not> (200 \<le> render_status response \<and> render_status response \<le> 299)
       then Inl (Error (''Failed to generate PDF: '' @ render_statusText response))
       else render_arrayBuffer response)"

text \<open>
  The body of the \<^verbatim>\<open>try\<close>; \<open>req_json\<close> is what \<^verbatim>\<open>c.req.json()\<close> gives. The content
  is \<^term>\<open>None\<close> when the email has neither HTML nor text.
\<close>

definition pdf_content :: "jsval \<Rightarrow> exn + string option" where
  "pdf_content cleanedContent =
     bind_exn (get_prop cleanedContent ''hasHtml'') (\<lambda>hasHtml.
       if truthy hasHtml
       then bind_exn (get_prop cleanedContent ''html'') (\<lambda>html.
              bind_exn (string_receiver ''html'' ''replace'' html) (\<lambda>h.
                Inr (Some (removeForwardedContent h))))
       else bind_exn (get_prop cleanedContent ''hasText'') (\<lambda>hasText.
              if truthy hasText
              then bind_exn (get_prop cleanedContent ''text'') (\<lambda>text.
                     bind_exn (string_receiver ''text'' ''split'' text) (\<lambda>t.
                       Inr (Some (wrapTextInHTML t))))
              else Inr None))"

definition pdf_try :: "pdf_env \<Rightarrow> exn + jsval \<Rightarrow> exn + response" where
  "pdf_try env req_json =
     bind_exn (case new_Inbound env of Some e \<Rightarrow> Inl e | None \<Rightarrow> Inr ()) (\<lambda>u.
     bind_exn req_json (\<lambda>payload.
     bind_exn (get_prop payload ''email'') (\<lambda>email.
     bind_exn (get_prop email ''cleanedContent'') (\<lambda>cleanedContent.
     bind_exn (pdf_content cleanedContent) (\<lambda>content.
       case content of
         None \<Rightarrow> Inr (error_response 400 (JStr ''No content found in email''))
       | Some htmlContent \<Rightarrow>
           bind_exn (generatePDFFromHTML env (addInboundBanner htmlContent)) (\<lambda>pdfBuffer.
           bind_exn (get_prop email ''id'') (\<lambda>emailId.
           bind_exn (inbound_reply env emailId pdfBuffer) (\<lambda>result.
           bind_exn (get_prop result ''error'') (\<lambda>err.
             if truthy err then Inr (error_response 500 err)
             else bind_exn (get_prop result ''data'') (\<lambda>d.
                    Inr \<lparr> res_status = 200,
                          res_body = JObj [(''success'', JBool True),
                                           (''messageId'', opt_prop d ''messageId'')] \<rparr>))))))))))"

definition pdf_post :: "pdf_env \<Rightarrow> exn + jsval \<Rightarrow> response" where
  "pdf_post env req_json =
     (case pdf_try env req_json of
        Inr r \<Rightarrow> r
      | Inl e \<Rightarrow> error_response 500 (JStr (message_or e ''Unknown error'')))"

subsection \<open>AI analysis and auto-reply\<close>

text \<open>
  The handler has no \<^verbatim>\<open>try\<close>: it sends a response or throws.
  \<^verbatim>\<open>const { email } = req.body\<close> throws on a missing body and \<^verbatim>\<open>email.from\<close> on a
  missing email; the rest of the logged expression is an optional chain. The analysis
  runs detached under \<^verbatim>\<open>waitUntil\<close>. \<open>now\<close> is the timestamp.
\<close>

definition ai_post :: "string \<Rightarrow> jsval \<Rightarrow> exn + response" where
  "ai_post now reqBody =
     bind_exn (get_prop reqBody ''email'') (\<lambda>email.
     bind_exn (get_prop email ''from'') (\<lambda>sender.
       Inr \<lparr> res_status = 200,
             res_body = JObj [(''status'', JStr ''ok''), (''timestamp'', JStr now)] \<rparr>))"

text \<open>The object that the completion service returns, by the schema of the source.\<close>

record analysis =
  detail_analysis :: string
  summary_analysis :: string
  safety_rating :: int
  summarize_forwared_email_title :: string
  dangerous :: bool

text \<open>The call \<^verbatim>\<open>inbound.email.sent.reply(id, params, options)\<close>.\<close>

record reply_request =
  rq_emailId :: jsval
  rq_from :: string
  rq_html :: string
  rq_text :: string
  rq_subject :: string
  rq_idempotencyKey :: string

definition fromEmail :: string where
  "fromEmail = ''Analysis Agent <analysis@inbound.new>''"

text \<open>\<^verbatim>\<open>v?.[0]\<close> and \<^verbatim>\<open>email.from?.addresses?.[0]?.name\<close>\<close>

definition opt_first :: "jsval \<Rightarrow> jsval" where
  "opt_first v =
     (if nullish v then JUndefined
      else case get_first v of Inl e \<Rightarrow> JUndefined | Inr x \<Rightarrow> x)"

definition sender_name :: "jsval \<Rightarrow> jsval" where
  "sender_name sender = opt_prop (opt_first (opt_prop sender ''addresses'')) ''name''"

definition or_str :: "jsval \<Rightarrow> string \<Rightarrow> string" where
  "or_str v d = to_str (if truthy v then v else JStr d)"

text \<open>
  \<^verbatim>\<open>analyzeEmail\<close>: the reply it sends, or the exception that rejects its promise.
  \<open>generateObject\<close> is the outcome of the completion service for the payload built
  from the email.
\<close>

definition analyzeEmail :: "(jsval \<Rightarrow> exn + analysis) \<Rightarrow> jsval \<Rightarrow> exn + reply_request" where
  "analyzeEmail generateObject email =
     bind_exn (get_prop email ''to'') (\<lambda>recipients.
     bind_exn (get_prop email ''from'') (\<lambda>sender.
     bind_exn (get_prop email ''subject'') (\<lambda>subj.
     bind_exn (get_prop email ''parsedData'') (\<lambda>parsedData.
     bind_exn (get_prop parsedData ''raw'') (\<lambda>raw.
     bind_exn (get_prop parsedData ''headers'') (\<lambda>headers.
       (let agentAnalysisPayload =
              JObj [(''to'', opt_prop recipients ''addresses''),
                    (''from'', opt_prop sender ''addresses''),
                    (''subject'', subj),
                    (''rawEmailContent'', if truthy raw then raw else JStr []),
                    (''headers'', headers)]
        in bind_exn (generateObject agentAnalysisPayload) (\<lambda>obj.
           (let response =
                  ''\<newline>\<newline>  Hi '' @ or_str (sender_name sender) ''there'' @ '',\<newline>'' @
                  ''  <br /><br />\<newline>  '' @
                  (if dangerous obj
                   then ''WARNING: This email is dangerous. Please be careful, read more below.''
                   else []) @
                  ''\<newline>  <br />\<newline>  I would rate this email a '' @
                  show_int (safety_rating obj) @
                  '' out of 100 for safety.\<newline>  <br />\<newline>  '' @
                  summary_analysis obj @ ''\<newline>\<newline>  '';
                subject = ''Re: Report of '' @ summarize_forwared_email_title obj @
                          '' from '' @ or_str (sender_name sender) ''you''
            in bind_exn (get_prop email ''id'') (\<lambda>emailId.
               bind_exn (get_prop email ''messageId'') (\<lambda>messageId.
                 Inr \<lparr> rq_emailId = emailId, rq_from = fromEmail, rq_html = response,
                       rq_text = response, rq_subject = subject,
                       rq_idempotencyKey =
                         ''reply-analysis-agent-'' @ to_str messageId \<rparr>)))))))))))"

text \<open>
  Modelled from the spec: the upstream reply endpoint, which is not part of this
  repository. It keeps the idempotency keys it has seen; a request whose key was seen
  before sends nothing.
\<close>

record upstream =
  seen_keys :: "string list"
  outbox :: "reply_request list"

definition upstream_reply :: "upstream \<Rightarrow> reply_request \<Rightarrow> upstream" where
  "upstream_reply u r =
     (if rq_idempotencyKey r \<in> set (seen_keys u) then u
      else u\<lparr> seen_keys := rq_idempotencyKey r # seen_keys u, outbox := outbox u @ [r] \<rparr>)"

text \<open>One delivery of the webhook: the reply, if the analysis produced one, goes upstream.\<close>

definition deliver ::
  "(jsval \<Rightarrow> exn + analysis) \<Rightarrow> upstream \<Rightarrow> jsval \<Rightarrow> upstream" where
  "deliver generateObject u email =
     (case analyzeEmail generateObject email of
        Inl e \<Rightarrow> u
      | Inr r \<Rightarrow> upstream_reply u r)"

section \<open>Properties: composer\<close>

text \<open>
  C5, amended. In reply mode the prefilled subject is \<open>Re: \<close> followed by the original
  subject when that subject is not empty and does not start with \<open>Re: \<close>; it is the
  original subject unchanged when it starts with \<open>Re: \<close>; and it is \<open>Re: No Subject\<close>
  when the original subject is absent or empty.
\<close>

theorem reply_subject_prefill:
  "(originalSubject rd = Some s \<and> s \<noteq> [] \<and> \<not> startsWith s ''Re: ''
      \<longrightarrow> subject (reset_form Reply (Some rd)) = ''Re: '' @ s) \<and>
   (originalSubject rd = Some s \<and> startsWith s ''Re: ''
      \<longrightarrow> subject (reset_form Reply (Some rd)) = s) \<and>
   (originalSubject rd = None \<or> originalSubject rd = Some []
      \<longrightarrow> subject (reset_form Reply (Some rd)) = ''Re: No Subject'')"
  by (auto simp: reset_form_def reply_subject_def str_or_def startsWith_def)

text \<open>The two examples of the specification, and an absent subject.\<close>

theorem reply_subject_prefill_witness:
  "subject (reset_form Reply (Some \<lparr> emailId = ''e1'',
       originalSubject = Some ''Quarterly Update'',
       originalSender = Some ''a@b.c'', replyAll = None \<rparr>)) = ''Re: Quarterly Update'' \<and>
   subject (reset_form Reply (Some \<lparr> emailId = ''e1'',
       originalSubject = Some ''Re: Quarterly Update'',
       originalSender = Some ''a@b.c'', replyAll = None \<rparr>)) = ''Re: Quarterly Update'' \<and>
   subject (reset_form Reply (Some \<lparr> emailId = ''e1'', originalSubject = None,
       originalSender = Some ''a@b.c'', replyAll = None \<rparr>)) = ''Re: No Subject''"
  using
    reply_subject_prefill [of "\<lparr> emailId = ''e1'', originalSubject = Some ''Quarterly Update'',
       originalSender = Some ''a@b.c'', replyAll = None \<rparr>" "''Quarterly Update''"]
    reply_subject_prefill [of "\<lparr> emailId = ''e1'',
       originalSubject = Some ''Re: Quarterly Update'',
       originalSender = Some ''a@b.c'', replyAll = None \<rparr>" "''Re: Quarterly Update''"]
    reply_subject_prefill [of "\<lparr> emailId = ''e1'', originalSubject = None,
       originalSender = Some ''a@b.c'', replyAll = None \<rparr>" "[]"]
  by (simp add: startsWith_def)

text \<open>
  An empty original subject does not start with \<open>Re: \<close>, and the prefilled subject is
  not \<open>Re: \<close> followed by it.
\<close>

theorem reply_subject_empty_counterexample:
  "\<not> startsWith [] ''Re: '' \<and>
   subject (reset_form Reply (Some \<lparr> emailId = ''e1'', originalSubject = Some [],
       originalSender = None, replyAll = None \<rparr>)) \<noteq> ''Re: '' @ []"
  by (simp add: reset_form_def reply_subject_def str_or_def startsWith_def)

section \<open>Properties: gateway client\<close>

text \<open>
  C7, amended. For a response that is not 2xx the call fails with an error whose
  message is the \<open>error\<close> field of the body when the body is a JSON object and that field
  is a non-empty string; the HTTP status line when the body is a JSON object whose
  \<open>error\<close> field is absent or falsy; and \<open>Unknown error\<close> when the body is not JSON. A
  2xx response gives what \<^verbatim>\<open>response.json()\<close> gives.
\<close>

theorem makeRequest_failure:
  "(\<not> resp_ok r \<and> resp_json r = Inr (JObj kvs) \<and>
      map_of kvs ''error'' = Some (JStr m) \<and> m \<noteq> []
      \<longrightarrow> makeRequest (Inr r) = Inl (Error m)) \<and>
   (\<not> resp_ok r \<and> resp_json r = Inr (JObj kvs) \<and>
      (map_of kvs ''error'' = None \<or> (\<exists>v. map_of kvs ''error'' = Some v \<and> \<not> truthy v))
      \<longrightarrow> makeRequest (Inr r) = Inl (Error (status_line r))) \<and>
   (\<not> resp_ok r \<and> resp_json r = Inl e
      \<longrightarrow> makeRequest (Inr r) = Inl (Error ''Unknown error'')) \<and>
   (resp_ok r \<longrightarrow> makeRequest (Inr r) = resp_json r)"
  by (auto simp: makeRequest_def bind_exn_def)

theorem makeRequest_failure_witness:
  "makeRequest (Inr \<lparr> resp_status = 404, resp_statusText = ''Not Found'',
       resp_json = Inr (JObj [(''error'', JStr ''Thread not found'')]) \<rparr>)
     = Inl (Error ''Thread not found'') \<and>
   makeRequest (Inr \<lparr> resp_status = 404, resp_statusText = ''Not Found'',
       resp_json = Inr (JObj [(''detail'', JStr ''x'')]) \<rparr>)
     = Inl (Error ''HTTP 404: Not Found'') \<and>
   makeRequest (Inr \<lparr> resp_status = 502, resp_statusText = ''Bad Gateway'',
       resp_json = Inl (SyntaxError ''Unexpected token'') \<rparr>)
     = Inl (Error ''Unknown error'') \<and>
   makeRequest (Inr \<lparr> resp_status = 200, resp_statusText = ''OK'',
       resp_json = Inr (JObj [(''threads'', JArr [])]) \<rparr>)
     = Inr (JObj [(''threads'', JArr [])])"
  using
    makeRequest_failure [of "\<lparr> resp_status = 404, resp_statusText = ''Not Found'',
       resp_json = Inr (JObj [(''error'', JStr ''Thread not found'')]) \<rparr>"
       "[(''error'', JStr ''Thread not found'')]" "''Thread not found''" "Error []"]
    makeRequest_failure [of "\<lparr> resp_status = 404, resp_statusText = ''Not Found'',
       resp_json = Inr (JObj [(''detail'', JStr ''x'')]) \<rparr>"
       "[(''detail'', JStr ''x'')]" "[]" "Error []"]
    makeRequest_failure [of "\<lparr> resp_status = 502, resp_statusText = ''Bad Gateway'',
       resp_json = Inl (SyntaxError ''Unexpected token'') \<rparr>"
       "[]" "[]" "SyntaxError ''Unexpected token''"]
    makeRequest_failure [of "\<lparr> resp_status = 200, resp_statusText = ''OK'',
       resp_json = Inr (JObj [(''threads'', JArr [])]) \<rparr>" "[]" "[]" "Error []"]
  by (simp add: resp_ok_def status_line_def)

text \<open>
  A 502 whose body is not JSON has no \<open>error\<close> field, yet the message is not the status
  line.
\<close>

theorem makeRequest_unparsable_counterexample:
  "\<not> resp_ok \<lparr> resp_status = 502, resp_statusText = ''Bad Gateway'',
       resp_json = Inl (SyntaxError ''Unexpected token'') \<rparr> \<and>
   makeRequest (Inr \<lparr> resp_status = 502, resp_statusText = ''Bad Gateway'',
       resp_json = Inl (SyntaxError ''Unexpected token'') \<rparr>)
     \<noteq> Inl (Error (status_line \<lparr> resp_status = 502, resp_statusText = ''Bad Gateway'',
       resp_json = Inl (SyntaxError ''Unexpected token'') \<rparr>))"
  by (simp add: makeRequest_def bind_exn_def resp_ok_def status_line_def)

section \<open>Properties: domain setup wizard\<close>

lemma catch_finally_step: "currentStep (catch_finally (w, x)) = currentStep w"
  by (cases x) (simp_all add: catch_finally_def)

lemma catch_finally_step_fst: "currentStep (catch_finally r) = currentStep (fst r)"
  by (cases r) (simp add: catch_finally_step)

text \<open>
  C6. After a refresh that was sent (the stored domain has an id) and answered by an ok
  response with a JSON body: a body whose \<open>status\<close> is \<open>verified\<close> puts the wizard at
  step 4, whatever step it was in, and collapses the DNS panel; a body that is not
  verified and whose \<open>hasMxRecords\<close> is truthy puts it at step 3. In every other case
  the step is unchanged.
\<close>

theorem refreshDomain_transitions:
  "(truthy (opt_prop (domainData w) ''id'') \<and> fetched = Inr response \<and> resp_ok response \<and>
      resp_json response = Inr result \<and> get_prop result ''status'' = Inr (JStr ''verified'')
      \<longrightarrow> currentStep (refreshDomain w fetched) = 4 \<and>
          \<not> isDnsConfigExpanded (refreshDomain w fetched)) \<and>
   (truthy (opt_prop (domainData w) ''id'') \<and> fetched = Inr response \<and> resp_ok response \<and>
      resp_json response = Inr result \<and> get_prop result ''status'' = Inr status \<and>
      status \<noteq> JStr ''verified'' \<and> get_prop result ''hasMxRecords'' = Inr mx \<and> truthy mx
      \<longrightarrow> currentStep (refreshDomain w fetched) = 3) \<and>
   (\<not> (\<exists>response result. truthy (opt_prop (domainData w) ''id'') \<and> fetched = Inr response \<and>
          resp_ok response \<and> resp_json response = Inr result \<and>
          (get_prop result ''status'' = Inr (JStr ''verified'') \<or>
           (\<exists>mx. get_prop result ''hasMxRecords'' = Inr mx \<and> truthy mx)))
      \<longrightarrow> currentStep (refreshDomain w fetched) = currentStep w)"
proof (intro conjI impI)
  assume "truthy (opt_prop (domainData w) ''id'') \<and> fetched = Inr response \<and>
      resp_ok response \<and> resp_json response = Inr result \<and>
      get_prop result ''status'' = Inr (JStr ''verified'')"
  then show "currentStep (refreshDomain w fetched) = 4"
    and "\<not> isDnsConfigExpanded (refreshDomain w fetched)"
    by (simp_all add: refreshDomain_def refresh_try_def catch_finally_def)
next
  assume "truthy (opt_prop (domainData w) ''id'') \<and> fetched = Inr response \<and>
      resp_ok response \<and> resp_json response = Inr result \<and>
      get_prop result ''status'' = Inr status \<and> status \<noteq> JStr ''verified'' \<and>
      get_prop result ''hasMxRecords'' = Inr mx \<and> truthy mx"
  then show "currentStep (refreshDomain w fetched) = 3"
    by (simp add: refreshDomain_def refresh_try_def catch_finally_def)
next
  assume other: "\<not> (\<exists>response result. truthy (opt_prop (domainData w) ''id'') \<and>
          fetched = Inr response \<and> resp_ok response \<and> resp_json response = Inr result \<and>
          (get_prop result ''status'' = Inr (JStr ''verified'') \<or>
           (\<exists>mx. get_prop result ''hasMxRecords'' = Inr mx \<and> truthy mx)))"
  show "currentStep (refreshDomain w fetched) = currentStep w"
  proof (cases "truthy (opt_prop (domainData w) ''id'')")
    case False
    then show ?thesis by (simp add: refreshDomain_def)
  next
    case True
    with other show ?thesis
      by (auto simp: refreshDomain_def refresh_try_def catch_finally_step Let_def
               split: sum.splits)
  qed
qed

text \<open>From step 2: a verified answer, an answer with MX records only, and a failure.\<close>

theorem refreshDomain_transitions_witness:
  "currentStep (refreshDomain
      (initial_wizard\<lparr> domainData := JObj [(''id'', JStr ''dom_1'')], currentStep := 2 \<rparr>)
      (Inr \<lparr> resp_status = 200, resp_statusText = ''OK'',
             resp_json = Inr (JObj [(''id'', JStr ''dom_1''),
                                    (''status'', JStr ''verified'')]) \<rparr>)) = 4 \<and>
   \<not> isDnsConfigExpanded (refreshDomain
      (initial_wizard\<lparr> domainData := JObj [(''id'', JStr ''dom_1'')], currentStep := 2 \<rparr>)
      (Inr \<lparr> resp_status = 200, resp_statusText = ''OK'',
             resp_json = Inr (JObj [(''id'', JStr ''dom_1''),
                                    (''status'', JStr ''verified'')]) \<rparr>)) \<and>
   currentStep (refreshDomain
      (initial_wizard\<lparr> domainData := JObj [(''id'', JStr ''dom_1'')], currentStep := 2 \<rparr>)
      (Inr \<lparr> resp_status = 200, resp_statusText = ''OK'',
             resp_json = Inr (JObj [(''status'', JStr ''pending''),
                                    (''hasMxRecords'', JBool True)]) \<rparr>)) = 3 \<and>
   currentStep (refreshDomain
      (initial_wizard\<lparr> domainData := JObj [(''id'', JStr ''dom_1'')], currentStep := 2 \<rparr>)
      (Inr \<lparr> resp_status = 500, resp_statusText = ''Internal Server Error'',
             resp_json = Inr (JObj [(''error'', JStr ''boom'')]) \<rparr>)) = 2"
  using
    refreshDomain_transitions [of
      "initial_wizard\<lparr> domainData := JObj [(''id'', JStr ''dom_1'')], currentStep := 2 \<rparr>"
      "Inr \<lparr> resp_status = 200, resp_statusText = ''OK'',
             resp_json = Inr (JObj [(''id'', JStr ''dom_1''),
                                    (''status'', JStr ''verified'')]) \<rparr>"
      "\<lparr> resp_status = 200, resp_statusText = ''OK'',
             resp_json = Inr (JObj [(''id'', JStr ''dom_1''),
                                    (''status'', JStr ''verified'')]) \<rparr>"
      "JObj [(''id'', JStr ''dom_1''), (''status'', JStr ''verified'')]" JUndefined JUndefined]
    refreshDomain_transitions [of
      "initial_wizard\<lparr> domainData := JObj [(''id'', JStr ''dom_1'')], currentStep := 2 \<rparr>"
      "Inr \<lparr> resp_status = 200, resp_statusText = ''OK'',
             resp_json = Inr (JObj [(''status'', JStr ''pending''),
                                    (''hasMxRecords'', JBool True)]) \<rparr>"
      "\<lparr> resp_status = 200, resp_statusText = ''OK'',
             resp_json = Inr (JObj [(''status'', JStr ''pending''),
                                    (''hasMxRecords'', JBool True)]) \<rparr>"
      "JObj [(''status'', JStr ''pending''), (''hasMxRecords'', JBool True)]"
      "JStr ''pending''" "JBool True"]
    refreshDomain_transitions [of
      "initial_wizard\<lparr> domainData := JObj [(''id'', JStr ''dom_1'')], currentStep := 2 \<rparr>"
      "Inr \<lparr> resp_status = 500, resp_statusText = ''Internal Server Error'',
             resp_json = Inr (JObj [(''error'', JStr ''boom'')]) \<rparr>"
      "\<lparr> resp_status = 500, resp_statusText = ''Internal Server Error'',
             resp_json = Inr (JObj [(''error'', JStr ''boom'')]) \<rparr>"
      "JObj [(''error'', JStr ''boom'')]" JUndefined JUndefined]
  by (simp add: initial_wizard_def opt_prop_def nullish_def resp_ok_def)




lemma load_effect_step:
  "1 \<le> currentStep w \<and> currentStep w \<le> 4 \<Longrightarrow>
   1 \<le> currentStep (fst (load_effect parse st w)) \<and>
   currentStep (fst (load_effect parse st w)) \<le> 4"
  by (auto simp: load_effect_def Let_def split: option.splits sum.splits)

lemma create_try_step:
  "1 \<le> currentStep w \<and> currentStep w \<le> 4 \<Longrightarrow>
   1 \<le> currentStep (fst (create_try w f)) \<and> currentStep (fst (create_try w f)) \<le> 4"
  by (auto simp: create_try_def split: sum.splits)

lemma refresh_try_step:
  "1 \<le> currentStep w \<and> currentStep w \<le> 4 \<Longrightarrow>
   1 \<le> currentStep (fst (refresh_try w f)) \<and> currentStep (fst (refresh_try w f)) \<le> 4"
  by (auto simp: refresh_try_def Let_def split: sum.splits)

lemma apply_event_step:
  assumes "1 \<le> currentStep w \<and> currentStep w \<le> 4"
  shows "1 \<le> currentStep (apply_event parse w ev) \<and>
         currentStep (apply_event parse w ev) \<le> 4"
proof (cases ev)
  case (Load st)
  have "1 \<le> currentStep initial_wizard \<and> currentStep initial_wizard \<le> 4"
    by (simp add: initial_wizard_def)
  from load_effect_step [OF this] Load show ?thesis by simp
next
  case (SubmitDomain d f)
  have "1 \<le> currentStep (w\<lparr>isLoading := True, wizardError := None\<rparr>) \<and>
        currentStep (w\<lparr>isLoading := True, wizardError := None\<rparr>) \<le> 4"
    using assms by simp
  from create_try_step [OF this] SubmitDomain assms show ?thesis
    by (simp add: createDomain_def catch_finally_step_fst)
next
  case (RefreshStatus f)
  have "1 \<le> currentStep (w\<lparr>isLoading := True, wizardError := None\<rparr>) \<and>
        currentStep (w\<lparr>isLoading := True, wizardError := None\<rparr>) \<le> 4"
    using assms by simp
  from refresh_try_step [OF this] RefreshStatus assms show ?thesis
    by (simp add: refreshDomain_def catch_finally_step_fst)
next
  case StartOver
  then show ?thesis by (simp add: clearSavedData_def)
qed

lemma foldl_events_step:
  "1 \<le> currentStep w \<and> currentStep w \<le> 4 \<Longrightarrow>
   1 \<le> currentStep (foldl (apply_event parse) w evs) \<and>
   currentStep (foldl (apply_event parse) w evs) \<le> 4"
proof (induction evs arbitrary: w)
  case Nil
  then show ?case by simp
next
  case (Cons ev evs)
  from apply_event_step [OF Cons.prems] have
    "1 \<le> currentStep (apply_event parse w ev) \<and> currentStep (apply_event parse w ev) \<le> 4" .
  from Cons.IH [OF this] show ?case by simp
qed

text \<open>
  C10. The step is 1 initially and stays between 1 and 4 under every sequence of
  loads (with any content of the storage and any JSON parser), domain submissions,
  status refreshes and start-overs, whatever the proxy answers.
\<close>

theorem wizard_step_range:
  "1 \<le> currentStep (run_events parse evs) \<and> currentStep (run_events parse evs) \<le> 4"
  unfolding run_events_def
  by (rule foldl_events_step) (simp add: initial_wizard_def)

text \<open>A load at step 3, a domain created (step 2), then a verified refresh (step 4).\<close>

theorem wizard_step_range_witness:
  "currentStep 
     (run_events (\<lambda>s. Inl (SyntaxError ''Unexpected token''))
        [Load (\<lambda>k. if k = CURRENT_STEP_KEY then Some ''3'' else None),
         SubmitDomain ''example.com''
           (Inr \<lparr> resp_status = 200, resp_statusText = ''OK'',
                  resp_json = Inr (JObj [(''id'', JStr ''dom_1''),
                                         (''status'', JStr ''pending'')]) \<rparr>),
         RefreshStatus
           (Inr \<lparr> resp_status = 200, resp_statusText = ''OK'',
                  resp_json = Inr (JObj [(''id'', JStr ''dom_1''),
                                         (''status'', JStr ''verified'')]) \<rparr>)]) = 4 \<and>
   1 \<le> currentStep 
     (run_events (\<lambda>s. Inl (SyntaxError ''Unexpected token''))
        [Load (\<lambda>k. if k = CURRENT_STEP_KEY then Some ''3'' else None),
         SubmitDomain ''example.com''
           (Inr \<lparr> resp_status = 200, resp_statusText = ''OK'',
                  resp_json = Inr (JObj [(''id'', JStr ''dom_1''),
                                         (''status'', JStr ''pending'')]) \<rparr>),
         RefreshStatus
           (Inr \<lparr> resp_status = 200, resp_statusText = ''OK'',
                  resp_json = Inr (JObj [(''id'', JStr ''dom_1''),
                                         (''status'', JStr ''verified'')]) \<rparr>)]) \<and>
   currentStep 
     (run_events (\<lambda>s. Inl (SyntaxError ''Unexpected token''))
        [Load (\<lambda>k. if k = CURRENT_STEP_KEY then Some ''3'' else None),
         SubmitDomain ''example.com''
           (Inr \<lparr> resp_status = 200, resp_statusText = ''OK'',
                  resp_json = Inr (JObj [(''id'', JStr ''dom_1''),
                                         (''status'', JStr ''pending'')]) \<rparr>),
         RefreshStatus
           (Inr \<lparr> resp_status = 200, resp_statusText = ''OK'',
                  resp_json = Inr (JObj [(''id'', JStr ''dom_1''),
                                         (''status'', JStr ''verified'')]) \<rparr>)]) \<le> 4"
proof -
  have "currentStep 
     (run_events (\<lambda>s. Inl (SyntaxError ''Unexpected token''))
        [Load (\<lambda>k. if k = CURRENT_STEP_KEY then Some ''3'' else None),
         SubmitDomain ''example.com''
           (Inr \<lparr> resp_status = 200, resp_statusText = ''OK'',
                  resp_json = Inr (JObj [(''id'', JStr ''dom_1''),
                                         (''status'', JStr ''pending'')]) \<rparr>),
         RefreshStatus
           (Inr \<lparr> resp_status = 200, resp_statusText = ''OK'',
                  resp_json = Inr (JObj [(''id'', JStr ''dom_1''),
                                         (''status'', JStr ''verified'')]) \<rparr>)]) = 4"
    by code_simp
  with wizard_step_range [of "\<lambda>s. Inl (SyntaxError ''Unexpected token'')"
      "[Load (\<lambda>k. if k = CURRENT_STEP_KEY then Some ''3'' else None),
       SubmitDomain ''example.com''
         (Inr \<lparr> resp_status = 200, resp_statusText = ''OK'',
                resp_json = Inr (JObj [(''id'', JStr ''dom_1''),
                                       (''status'', JStr ''pending'')]) \<rparr>),
       RefreshStatus
         (Inr \<lparr> resp_status = 200, resp_statusText = ''OK'',
                resp_json = Inr (JObj [(''id'', JStr ''dom_1''),
                                       (''status'', JStr ''verified'')]) \<rparr>)]"]
  show ?thesis by simp
qed

section \<open>Properties: webhook receivers\<close>

lemma bind_exn_yields:
  "(\<And>v. m = Inr v \<Longrightarrow> \<forall>r. f v = Inr r \<longrightarrow> P r) \<Longrightarrow>
   \<forall>r. bind_exn m f = Inr r \<longrightarrow> P r"
  by (cases m) (simp_all add: bind_exn_def)





text \<open>
  C3, amended. The HTML-cleanup receiver answers a request whose body is missing, or
  whose \<open>email\<close> is missing or falsy, with status 400, whatever the libraries would do.
  For a body without \<open>email\<close> the PDF receiver answers 500 with the message of the
  \<^verbatim>\<open>TypeError\<close> of reading \<open>cleanedContent\<close>, and the handler of the AI receiver throws
  the \<^verbatim>\<open>TypeError\<close> of reading \<open>from\<close>.
\<close>

theorem missing_email_responses:
  "(\<not> truthy b \<or> (\<exists>email. get_prop b ''email'' = Inr email \<and> \<not> truthy email)
      \<longrightarrow> copymail_post env b =
            error_response 400 (JStr (if \<not> truthy b then ''Request body is empty''
                                       else ''Email data not found in request body''))) \<and>
   (get_prop b ''email'' = Inr JUndefined \<and> new_Inbound penv = None
      \<longrightarrow> pdf_post penv (Inr b) =
            error_response 500 (JStr (cannot_read ''undefined'' ''cleanedContent''))) \<and>
   (get_prop b ''email'' = Inr JUndefined
      \<longrightarrow> ai_post now b = Inl (TypeError (cannot_read ''undefined'' ''from'')))"
  by (auto simp: copymail_post_def copymail_try_def pdf_post_def pdf_try_def ai_post_def
        bind_exn_def)

theorem missing_email_responses_witness:
  "copymail_post \<lparr> cheerio_html = (\<lambda>v. Inr v), writeFileSync = (\<lambda>name v. None) \<rparr>
       (JObj [(''foo'', JNum 1)])
     = error_response 400 (JStr ''Email data not found in request body'') \<and>
   copymail_post \<lparr> cheerio_html = (\<lambda>v. Inr v), writeFileSync = (\<lambda>name v. None) \<rparr>
       JUndefined
     = error_response 400 (JStr ''Request body is empty'') \<and>
   pdf_post \<lparr> new_Inbound = None, fetch_pdf = (\<lambda>html. Inl (TypeError ''fetch failed'')),
       inbound_reply = (\<lambda>i p. Inr (JObj [])) \<rparr> (Inr (JObj [(''foo'', JNum 1)]))
     = error_response 500 (JStr (cannot_read ''undefined'' ''cleanedContent'')) \<and>
   ai_post ''2025-01-01T00:00:00.000Z'' (JObj [(''foo'', JNum 1)])
     = Inl (TypeError (cannot_read ''undefined'' ''from''))"
  using
    missing_email_responses [of "JObj [(''foo'', JNum 1)]"
      "\<lparr> cheerio_html = (\<lambda>v. Inr v), writeFileSync = (\<lambda>name v. None) \<rparr>"
      "\<lparr> new_Inbound = None, fetch_pdf = (\<lambda>html. Inl (TypeError ''fetch failed'')),
         inbound_reply = (\<lambda>i p. Inr (JObj [])) \<rparr>" "''2025-01-01T00:00:00.000Z''"]
    missing_email_responses [of JUndefined
      "\<lparr> cheerio_html = (\<lambda>v. Inr v), writeFileSync = (\<lambda>name v. None) \<rparr>"
      "\<lparr> new_Inbound = None, fetch_pdf = (\<lambda>html. Inl (TypeError ''fetch failed'')),
         inbound_reply = (\<lambda>i p. Inr (JObj [])) \<rparr>" "''2025-01-01T00:00:00.000Z''"]
  by simp

text \<open>The AI receiver answers an empty JSON object with no response at all: it throws.\<close>

theorem ai_missing_email_counterexample:
  "ai_post ''2025-01-01T00:00:00.000Z'' (JObj [])
     = Inl (TypeError ''Cannot read properties of undefined (reading 'from')'')"
  by (simp add: ai_post_def bind_exn_def cannot_read_def)

lemma analyzeEmail_key_all:
  "\<forall>r. analyzeEmail g e = Inr r \<longrightarrow>
     (\<exists>mid. get_prop e ''messageId'' = Inr mid \<and>
         rq_idempotencyKey r = ''reply-analysis-agent-'' @ to_str mid)"
  unfolding analyzeEmail_def Let_def
  apply (intro bind_exn_yields)
  apply simp
  done

lemma analyzeEmail_key:
  "analyzeEmail g e = Inr r \<Longrightarrow>
     \<exists>mid. get_prop e ''messageId'' = Inr mid \<and>
         rq_idempotencyKey r = ''reply-analysis-agent-'' @ to_str mid"
  using analyzeEmail_key_all by blast

lemma upstream_reply_seen: "rq_idempotencyKey r \<in> set (seen_keys (upstream_reply u r))"
  by (simp add: upstream_reply_def)

lemma upstream_reply_outbox_le:
  "length (outbox (upstream_reply u r)) \<le> Suc (length (outbox u))"
  by (simp add: upstream_reply_def)

text \<open>
  C8. For two deliveries of emails with the same message id, whatever the completion
  service returns for each, the replies that \<^verbatim>\<open>analyzeEmail\<close> sends carry the same
  idempotency key; and an upstream that drops a request whose key it has seen records
  at most one more reply after both deliveries.
\<close>

theorem analysis_reply_idempotent:
  assumes same: "get_prop e1 ''messageId'' = get_prop e2 ''messageId''"
  shows "(analyzeEmail g1 e1 = Inr r1 \<and> analyzeEmail g2 e2 = Inr r2
            \<longrightarrow> rq_idempotencyKey r1 = rq_idempotencyKey r2) \<and>
         length (outbox (deliver g2 (deliver g1 u e1) e2)) \<le> Suc (length (outbox u))"
proof
  have keys: "rq_idempotencyKey a = rq_idempotencyKey b"
    if "analyzeEmail g1 e1 = Inr a" "analyzeEmail g2 e2 = Inr b" for a b
    using analyzeEmail_key [OF that(1)] analyzeEmail_key [OF that(2)] same by auto
  then show "analyzeEmail g1 e1 = Inr r1 \<and> analyzeEmail g2 e2 = Inr r2
            \<longrightarrow> rq_idempotencyKey r1 = rq_idempotencyKey r2"
    by blast
  show "length (outbox (deliver g2 (deliver g1 u e1) e2)) \<le> Suc (length (outbox u))"
  proof (cases "analyzeEmail g1 e1")
    case (Inl a)
    then show ?thesis
      by (cases "analyzeEmail g2 e2") (simp_all add: deliver_def upstream_reply_outbox_le)
  next
    case a: (Inr a)
    show ?thesis
    proof (cases "analyzeEmail g2 e2")
      case (Inl x)
      with a show ?thesis by (simp add: deliver_def upstream_reply_outbox_le)
    next
      case b: (Inr b)
      from keys [OF a b] upstream_reply_seen [of a u]
      have "rq_idempotencyKey b \<in> set (seen_keys (upstream_reply u a))"
        by simp
      then have "upstream_reply (upstream_reply u a) b = upstream_reply u a"
        by (simp add: upstream_reply_def)
      with a b show ?thesis by (simp add: deliver_def upstream_reply_outbox_le)
    qed
  qed
qed

text \<open>
  Two deliveries of one email for which the completion service gives different
  analyses: one reply is recorded.
\<close>

theorem analysis_reply_idempotent_witness:
  "length (outbox
     (deliver (\<lambda>p. Inr \<lparr> detail_analysis = ''d'', summary_analysis = ''t'', safety_rating = 20,
        summarize_forwared_email_title = ''Phishing'', dangerous = True \<rparr>)
       (deliver (\<lambda>p. Inr \<lparr> detail_analysis = ''d'', summary_analysis = ''s'', safety_rating = 90,
        summarize_forwared_email_title = ''Invoice'', dangerous = False \<rparr>)
          \<lparr> seen_keys = [], outbox = [] \<rparr>
          (JObj [(''id'', JStr ''e1''), (''messageId'', JStr ''<m1@x>''),
        (''subject'', JStr ''Fwd: invoice''),
        (''parsedData'', JObj [(''raw'', JStr ''first delivery'')])]))
       (JObj [(''id'', JStr ''e1''), (''messageId'', JStr ''<m1@x>''),
        (''subject'', JStr ''Fwd: invoice''),
        (''parsedData'', JObj [(''raw'', JStr ''second delivery'')])]))) = 1"
proof -
  have same: "get_prop (JObj [(''id'', JStr ''e1''), (''messageId'', JStr ''<m1@x>''),
        (''subject'', JStr ''Fwd: invoice''),
        (''parsedData'', JObj [(''raw'', JStr ''first delivery'')])]) ''messageId''
      = get_prop (JObj [(''id'', JStr ''e1''), (''messageId'', JStr ''<m1@x>''),
        (''subject'', JStr ''Fwd: invoice''),
        (''parsedData'', JObj [(''raw'', JStr ''second delivery'')])]) ''messageId''"
    by simp
  have sent: "length (outbox
     (deliver (\<lambda>p. Inr \<lparr> detail_analysis = ''d'', summary_analysis = ''s'', safety_rating = 90,
        summarize_forwared_email_title = ''Invoice'', dangerous = False \<rparr>)
        \<lparr> seen_keys = [], outbox = [] \<rparr>
        (JObj [(''id'', JStr ''e1''), (''messageId'', JStr ''<m1@x>''),
        (''subject'', JStr ''Fwd: invoice''),
        (''parsedData'', JObj [(''raw'', JStr ''first delivery'')])]))) = 1"
    by code_simp
  have mono: "length (outbox
     (deliver (\<lambda>p. Inr \<lparr> detail_analysis = ''d'', summary_analysis = ''s'', safety_rating = 90,
        summarize_forwared_email_title = ''Invoice'', dangerous = False \<rparr>)
        \<lparr> seen_keys = [], outbox = [] \<rparr>
        (JObj [(''id'', JStr ''e1''), (''messageId'', JStr ''<m1@x>''),
        (''subject'', JStr ''Fwd: invoice''),
        (''parsedData'', JObj [(''raw'', JStr ''first delivery'')])])))
    \<le> length (outbox
     (deliver (\<lambda>p. Inr \<lparr> detail_analysis = ''d'', summary_analysis = ''t'', safety_rating = 20,
        summarize_forwared_email_title = ''Phishing'', dangerous = True \<rparr>)
       (deliver (\<lambda>p. Inr \<lparr> detail_analysis = ''d'', summary_analysis = ''s'', safety_rating = 90,
        summarize_forwared_email_title = ''Invoice'', dangerous = False \<rparr>)
          \<lparr> seen_keys = [], outbox = [] \<rparr>
          (JObj [(''id'', JStr ''e1''), (''messageId'', JStr ''<m1@x>''),
        (''subject'', JStr ''Fwd: invoice''),
        (''parsedData'', JObj [(''raw'', JStr ''first delivery'')])]))
       (JObj [(''id'', JStr ''e1''), (''messageId'', JStr ''<m1@x>''),
        (''subject'', JStr ''Fwd: invoice''),
        (''parsedData'', JObj [(''raw'', JStr ''second delivery'')])])))"
    by code_simp
  from analysis_reply_idempotent [OF same, of "\<lambda>p. Inr \<lparr> detail_analysis = ''d'', summary_analysis = ''s'', safety_rating = 90,
        summarize_forwared_email_title = ''Invoice'', dangerous = False \<rparr>" _ "\<lambda>p. Inr \<lparr> detail_analysis = ''d'', summary_analysis = ''t'', safety_rating = 20,
        summarize_forwared_email_title = ''Phishing'', dangerous = True \<rparr>" _ "\<lparr> seen_keys = [], outbox = [] \<rparr>"] sent mono
  show ?thesis by simp
qed

section \<open>Properties: regular expressions\<close>

text \<open>The rests that the matcher lists, as sets: which matches exist, whatever their order.\<close>

lemma set_ms_Seq: "set (ms n (Seq a b) s) = (\<Union>t \<in> set (ms n a s). set (ms n b t))"
  by simp

lemma set_ms_Star:
  "set (ms n (Star q a) s) =
     insert s (\<Union>t \<in> {t \<in> set (ms n a s). length t < length s}. set (ms n (Star q a) t))"
proof (cases q)
  case Greedy
  show ?thesis unfolding Greedy by (subst ms.simps(7)) auto
next
  case Lazy
  show ?thesis unfolding Lazy by (subst ms.simps(8)) auto
qed

lemma set_ms_Chr: "set (ms n (Chr P) s) = {t. \<exists>x. P x \<and> s = x # t}"
  by (cases s) auto

lemma set_ms_star_class:
  "set (ms n (Star q (Chr P)) s) = {t. \<exists>l. (\<forall>c \<in> set l. P c) \<and> s = l @ t}"
proof (induction s)
  case Nil
  show ?case by (subst set_ms_Star) (auto simp: set_ms_Chr)
next
  case (Cons x xs)
  show ?case
  proof (cases "P x")
    case False
    have "{t. \<exists>l. (\<forall>c \<in> set l. P c) \<and> x # xs = l @ t} = {x # xs}"
      using False by (auto simp: Cons_eq_append_conv)
    then show ?thesis by (subst set_ms_Star) (auto simp: set_ms_Chr False)
  next
    case True
    have "{t. \<exists>l. (\<forall>c \<in> set l. P c) \<and> x # xs = l @ t}
        = insert (x # xs) {t. \<exists>l. (\<forall>c \<in> set l. P c) \<and> xs = l @ t}"
      using True by (auto simp: Cons_eq_append_conv)
    with Cons show ?thesis by (subst set_ms_Star) (auto simp: set_ms_Chr True)
  qed
qed

lemma set_ms_plus_class:
  "set (ms n (plus q (Chr P)) s) = {t. \<exists>l. l \<noteq> [] \<and> (\<forall>c \<in> set l. P c) \<and> s = l @ t}"
proof -
  have "t \<in> set (ms n (plus q (Chr P)) s) \<longleftrightarrow>
        (\<exists>l. l \<noteq> [] \<and> (\<forall>c \<in> set l. P c) \<and> s = l @ t)" for t
  proof
    assume "t \<in> set (ms n (plus q (Chr P)) s)"
    then obtain x l where "P x" "\<forall>c \<in> set l. P c" "s = x # l @ t"
      unfolding plus_def set_ms_Seq set_ms_Chr set_ms_star_class by auto
    then have "x # l \<noteq> [] \<and> (\<forall>c \<in> set (x # l). P c) \<and> s = (x # l) @ t" by simp
    then show "\<exists>l. l \<noteq> [] \<and> (\<forall>c \<in> set l. P c) \<and> s = l @ t" by blast
  next
    assume "\<exists>l. l \<noteq> [] \<and> (\<forall>c \<in> set l. P c) \<and> s = l @ t"
    then obtain x l where "P x" "\<forall>c \<in> set l. P c" "s = x # l @ t"
      by (auto simp: neq_Nil_conv)
    then show "t \<in> set (ms n (plus q (Chr P)) s)"
      unfolding plus_def set_ms_Seq set_ms_Chr set_ms_star_class by auto
  qed
  then show ?thesis by blast
qed

section \<open>Properties: domain validator\<close>

text \<open>The language of the first pattern: a label, then one or more groups of a dot and a label.\<close>

lemma set_ms_dot_group:
  "set (ms n dot_group s) = {t. \<exists>l. label_ok l \<and> s = CHR ''.'' # l @ t}"
  unfolding dot_group_def set_ms_Seq set_ms_Chr set_ms_plus_class label_ok_def
  by auto

lemma ms_star_group_sound:
  "t \<in> set (ms n (Star q dot_group) s) \<Longrightarrow>
   \<exists>ls. (\<forall>l \<in> set ls. label_ok l) \<and> s = concat (map ((#) CHR ''.'') ls) @ t"
proof (induction "length s" arbitrary: s rule: less_induct)
  case less
  from less.prems have "t = s \<or>
    (\<exists>u \<in> set (ms n dot_group s). length u < length s \<and> t \<in> set (ms n (Star q dot_group) u))"
    by (subst (asm) set_ms_Star) auto
  then show ?case
  proof
    assume "t = s"
    then have "(\<forall>l \<in> set []. label_ok l) \<and> s = concat (map ((#) CHR ''.'') []) @ t" by simp
    then show ?thesis by blast
  next
    assume "\<exists>u \<in> set (ms n dot_group s). length u < length s \<and> t \<in> set (ms n (Star q dot_group) u)"
    then obtain u where u: "u \<in> set (ms n dot_group s)" "length u < length s"
      "t \<in> set (ms n (Star q dot_group) u)" by blast
    from u(1) obtain l where l: "label_ok l" "s = CHR ''.'' # l @ u"
      unfolding set_ms_dot_group by blast
    from less.hyps [OF u(2) u(3)] obtain ls where
      ls: "\<forall>l \<in> set ls. label_ok l" "u = concat (map ((#) CHR ''.'') ls) @ t" by blast
    from l ls have "(\<forall>x \<in> set (l # ls). label_ok x) \<and> s = concat (map ((#) CHR ''.'') (l # ls)) @ t"
      by simp
    then show ?thesis by blast
  qed
qed

lemma ms_star_group_complete:
  "\<forall>l \<in> set ls. label_ok l \<Longrightarrow>
   t \<in> set (ms n (Star q dot_group) (concat (map ((#) CHR ''.'') ls) @ t))"
proof (induction ls)
  case Nil
  show ?case by (subst set_ms_Star) simp
next
  case (Cons l ls)
  let ?u = "concat (map ((#) CHR ''.'') ls) @ t"
  have s: "concat (map ((#) CHR ''.'') (l # ls)) @ t = CHR ''.'' # l @ ?u" by simp
  from Cons.prems have "label_ok l" by simp
  then have u: "?u \<in> set (ms n dot_group (CHR ''.'' # l @ ?u))"
    unfolding set_ms_dot_group by blast
  have len: "length ?u < length (CHR ''.'' # l @ ?u)" by simp
  from Cons have "t \<in> set (ms n (Star q dot_group) ?u)" by simp
  with u len show ?case
    unfolding s by (subst set_ms_Star) blast
qed

lemma set_ms_star_group:
  "set (ms n (Star q dot_group) s) =
     {t. \<exists>ls. (\<forall>l \<in> set ls. label_ok l) \<and> s = concat (map ((#) CHR ''.'') ls) @ t}"
  using ms_star_group_sound ms_star_group_complete by blast

lemma domain_re_unfold:
  "domain_re = Seq Bol (Seq (plus Greedy (Chr is_label_char))
                 (Seq (Seq dot_group (Star Greedy dot_group)) (Seq Eol Eps)))"
  by (simp add: domain_re_def seq_def plus_def)

lemma ms_domain_re:
  "ms n domain_re s \<noteq> [] \<longleftrightarrow>
     length s = n \<and>
     (\<exists>l0 ls. label_ok l0 \<and> ls \<noteq> [] \<and> (\<forall>l \<in> set ls. label_ok l) \<and>
              s = l0 @ concat (map ((#) CHR ''.'') ls))"
proof -
  have "ms n domain_re s \<noteq> [] \<longleftrightarrow> set (ms n domain_re s) \<noteq> {}" by simp
  also have "\<dots> \<longleftrightarrow> length s = n \<and>
     (\<exists>l0 l ls. label_ok l0 \<and> label_ok l \<and> (\<forall>l \<in> set ls. label_ok l) \<and>
              s = l0 @ CHR ''.'' # l @ concat (map ((#) CHR ''.'') ls))"
    unfolding domain_re_unfold set_ms_Seq set_ms_plus_class set_ms_dot_group set_ms_star_group
    by (auto simp: label_ok_def)
  also have "\<dots> \<longleftrightarrow> length s = n \<and>
     (\<exists>l0 ls. label_ok l0 \<and> ls \<noteq> [] \<and> (\<forall>l \<in> set ls. label_ok l) \<and>
              s = l0 @ concat (map ((#) CHR ''.'') ls))"
  proof -
    have "(\<exists>l0 l ls. label_ok l0 \<and> label_ok l \<and> (\<forall>l \<in> set ls. label_ok l) \<and>
              s = l0 @ CHR ''.'' # l @ concat (map ((#) CHR ''.'') ls))
       \<longleftrightarrow> (\<exists>l0 ls. label_ok l0 \<and> ls \<noteq> [] \<and> (\<forall>l \<in> set ls. label_ok l) \<and>
              s = l0 @ concat (map ((#) CHR ''.'') ls))" (is "?A \<longleftrightarrow> ?B")
    proof
      assume ?A
      then obtain l0 l ls where h: "label_ok l0" "label_ok l" "\<forall>l \<in> set ls. label_ok l"
        "s = l0 @ CHR ''.'' # l @ concat (map ((#) CHR ''.'') ls)" by blast
      then have "label_ok l0 \<and> l # ls \<noteq> [] \<and> (\<forall>x \<in> set (l # ls). label_ok x) \<and>
              s = l0 @ concat (map ((#) CHR ''.'') (l # ls))" by simp
      then show ?B by blast
    next
      assume ?B
      then obtain l0 ls where h: "label_ok l0" "ls \<noteq> []" "\<forall>l \<in> set ls. label_ok l"
        "s = l0 @ concat (map ((#) CHR ''.'') ls)" by blast
      from h(2) obtain l ls' where "ls = l # ls'" by (cases ls) auto
      with h show ?A by auto
    qed
    then show ?thesis by simp
  qed
  finally show ?thesis .
qed

lemma regex_test_iff:
  "regex_test r s \<longleftrightarrow> (\<exists>i \<le> length s. ms (length s) r (drop i s) \<noteq> [])"
  unfolding regex_test_def list_ex_iff set_upt Bex_def atLeastLessThan_iff less_Suc_eq_le
  by simp

lemma regex_test_domain_re:
  "regex_test domain_re s \<longleftrightarrow>
     (\<exists>l0 ls. label_ok l0 \<and> ls \<noteq> [] \<and> (\<forall>l \<in> set ls. label_ok l) \<and>
              s = l0 @ concat (map ((#) CHR ''.'') ls))"
proof -
  have "regex_test domain_re s \<longleftrightarrow> (\<exists>i \<le> length s. ms (length s) domain_re (drop i s) \<noteq> [])"
    by (rule regex_test_iff)
  also have "\<dots> \<longleftrightarrow> ms (length s) domain_re s \<noteq> []"
  proof
    assume "\<exists>i \<le> length s. ms (length s) domain_re (drop i s) \<noteq> []"
    then obtain i where i: "i \<le> length s" "ms (length s) domain_re (drop i s) \<noteq> []" by blast
    from i(2) have "length (drop i s) = length s" unfolding ms_domain_re by blast
    with i(1) have "i = 0" by simp
    with i(2) show "ms (length s) domain_re s \<noteq> []" by simp
  next
    assume "ms (length s) domain_re s \<noteq> []"
    then have "0 \<le> length s \<and> ms (length s) domain_re (drop 0 s) \<noteq> []" by simp
    then show "\<exists>i \<le> length s. ms (length s) domain_re (drop i s) \<noteq> []" by blast
  qed
  finally show ?thesis unfolding ms_domain_re by simp
qed

text \<open>The language of the pattern for the top-level label.\<close>

lemma tld_re_unfold:
  "tld_re = Seq Bol (Seq (Seq (Chr is_alpha) (Seq (Chr is_alpha)
                 (Seq (Star Greedy (Chr is_alpha)) Eps))) (Seq Eol Eps))"
  by (simp add: tld_re_def seq_def at_least_def numeral_2_eq_2)

lemma ms_tld_re:
  "ms n tld_re s \<noteq> [] \<longleftrightarrow> length s = n \<and> 2 \<le> length s \<and> (\<forall>c \<in> set s. is_alpha c)"
proof -
  have "ms n tld_re s \<noteq> [] \<longleftrightarrow> set (ms n tld_re s) \<noteq> {}" by simp
  also have "\<dots> \<longleftrightarrow> length s = n \<and>
      (\<exists>x y l. is_alpha x \<and> is_alpha y \<and> (\<forall>c \<in> set l. is_alpha c) \<and> s = x # y # l)"
    unfolding tld_re_unfold set_ms_Seq set_ms_Chr set_ms_star_class
    by auto
  also have "\<dots> \<longleftrightarrow> length s = n \<and> 2 \<le> length s \<and> (\<forall>c \<in> set s. is_alpha c)"
  proof (cases s)
    case Nil
    then show ?thesis by simp
  next
    case (Cons x t)
    then show ?thesis by (cases t) auto
  qed
  finally show ?thesis .
qed

lemma regex_test_tld_re:
  "regex_test tld_re s \<longleftrightarrow> 2 \<le> length s \<and> (\<forall>c \<in> set s. is_alpha c)"
proof -
  have "regex_test tld_re s \<longleftrightarrow> (\<exists>i \<le> length s. ms (length s) tld_re (drop i s) \<noteq> [])"
    by (rule regex_test_iff)
  also have "\<dots> \<longleftrightarrow> ms (length s) tld_re s \<noteq> []"
  proof
    assume "\<exists>i \<le> length s. ms (length s) tld_re (drop i s) \<noteq> []"
    then obtain i where i: "i \<le> length s" "ms (length s) tld_re (drop i s) \<noteq> []" by blast
    from i(2) have "length (drop i s) = length s" unfolding ms_tld_re by blast
    with i(1) have "i = 0" by simp
    with i(2) show "ms (length s) tld_re s \<noteq> []" by simp
  next
    assume "ms (length s) tld_re s \<noteq> []"
    then have "0 \<le> length s \<and> ms (length s) tld_re (drop 0 s) \<noteq> []" by simp
    then show "\<exists>i \<le> length s. ms (length s) tld_re (drop i s) \<noteq> []" by blast
  qed
  finally show ?thesis unfolding ms_tld_re by simp
qed

text \<open>Splitting at dots and joining with dots.\<close>

lemma js_split_dot_Cons:
  "js_split ''.'' (x # xs) =
     (if x = CHR ''.'' then [] # js_split ''.'' xs
      else (x # hd (js_split ''.'' xs)) # tl (js_split ''.'' xs))"
  by simp

lemma js_split_dot_Nil: "js_split ''.'' [] = [[]]"
  by simp

lemma js_split_dot_ne: "js_split ''.'' s \<noteq> []"
  by (induction s) (simp_all only: js_split_dot_Cons js_split_dot_Nil, simp_all)

lemma js_split_dot_free:
  "CHR ''.'' \<notin> set l \<Longrightarrow> js_split ''.'' (l @ CHR ''.'' # t) = l # js_split ''.'' t"
proof (induction l)
  case Nil
  show ?case by (simp only: append_Nil js_split_dot_Cons) simp
next
  case (Cons x l)
  then have "x \<noteq> CHR ''.''" and "CHR ''.'' \<notin> set l" by auto
  with Cons.IH show ?case
    by (simp only: append_Cons js_split_dot_Cons) simp
qed

lemma js_split_dot_free_end: "CHR ''.'' \<notin> set l \<Longrightarrow> js_split ''.'' l = [l]"
proof (induction l)
  case Nil
  show ?case by simp
next
  case (Cons x l)
  then have "x \<noteq> CHR ''.''" and "CHR ''.'' \<notin> set l" by auto
  with Cons.IH show ?case
    by (simp only: js_split_dot_Cons) simp
qed

lemma js_split_labels:
  "CHR ''.'' \<notin> set l0 \<Longrightarrow> \<forall>l \<in> set ls. CHR ''.'' \<notin> set l \<Longrightarrow>
   js_split ''.'' (l0 @ concat (map ((#) CHR ''.'') ls)) = l0 # ls"
proof (induction ls arbitrary: l0)
  case Nil
  then show ?case by (simp add: js_split_dot_free_end del: js_split.simps)
next
  case (Cons l ls)
  from Cons.prems have "CHR ''.'' \<notin> set l" "\<forall>l \<in> set ls. CHR ''.'' \<notin> set l" by auto
  from Cons.IH [OF this] Cons.prems(1) show ?case
    by (simp add: js_split_dot_free del: js_split.simps)
qed

lemma js_split_join:
  "s = hd (js_split ''.'' s) @ concat (map ((#) CHR ''.'') (tl (js_split ''.'' s)))"
proof (induction s)
  case Nil
  show ?case by simp
next
  case (Cons x xs)
  show ?case
  proof (cases "x = CHR ''.''")
    case True
    with Cons show ?thesis
      using js_split_dot_ne [of xs]
      by (simp only: js_split_dot_Cons) (cases "js_split ''.'' xs"; simp)
  next
    case False
    with Cons show ?thesis
      by (simp only: js_split_dot_Cons) simp
  qed
qed

lemma label_char_not_dot: "is_label_char c \<Longrightarrow> c \<noteq> CHR ''.''"
  by (auto simp: is_label_char_def is_alpha_def is_upper_def is_lower_def is_digit_def)

lemma label_ok_dot_free: "label_ok l \<Longrightarrow> CHR ''.'' \<notin> set l"
  using label_char_not_dot by (auto simp: label_ok_def)

text \<open>The first pattern in terms of the pieces between the dots.\<close>

lemma regex_test_domain_split:
  "regex_test domain_re d \<longleftrightarrow>
     2 \<le> length (js_split ''.'' d) \<and> (\<forall>l \<in> set (js_split ''.'' d). label_ok l)"
proof
  assume "regex_test domain_re d"
  then obtain l0 ls where h: "label_ok l0" "ls \<noteq> []" "\<forall>l \<in> set ls. label_ok l"
    "d = l0 @ concat (map ((#) CHR ''.'') ls)"
    unfolding regex_test_domain_re by blast
  from h(1,3) have "CHR ''.'' \<notin> set l0" "\<forall>l \<in> set ls. CHR ''.'' \<notin> set l"
    using label_ok_dot_free by auto
  from js_split_labels [OF this] h(4) have "js_split ''.'' d = l0 # ls" by simp
  with h show "2 \<le> length (js_split ''.'' d) \<and> (\<forall>l \<in> set (js_split ''.'' d). label_ok l)"
    by (cases ls) auto
next
  assume a: "2 \<le> length (js_split ''.'' d) \<and> (\<forall>l \<in> set (js_split ''.'' d). label_ok l)"
  then obtain l0 l ls where s: "js_split ''.'' d = l0 # l # ls"
    by (cases "js_split ''.'' d"; cases "tl (js_split ''.'' d)") auto
  from js_split_join [of d] s have "d = l0 @ concat (map ((#) CHR ''.'') (l # ls))" by simp
  moreover from a s have "label_ok l0" "\<forall>x \<in> set (l # ls). label_ok x" by auto
  ultimately have "label_ok l0 \<and> l # ls \<noteq> [] \<and> (\<forall>x \<in> set (l # ls). label_ok x) \<and>
      d = l0 @ concat (map ((#) CHR ''.'') (l # ls))" by simp
  then show "regex_test domain_re d" unfolding regex_test_domain_re by blast
qed

lemma startsWith_char: "startsWith s [c] \<longleftrightarrow> s \<noteq> [] \<and> hd s = c"
  by (cases s) (auto simp: startsWith_def)

lemma endsWith_char: "endsWith s [c] \<longleftrightarrow> s \<noteq> [] \<and> last s = c"
  by (cases s rule: rev_cases) (auto simp: endsWith_def)

lemma js_includes_dots:
  "js_includes s ''..'' \<Longrightarrow> [] \<in> set (tl (js_split ''.'' s))"
proof (induction s)
  case Nil
  then show ?case by simp
next
  case (Cons x xs)
  from Cons.prems have "prefix ''..'' (x # xs) \<or> js_includes xs ''..''" by simp
  then show ?case
  proof
    assume "prefix ''..'' (x # xs)"
    then obtain r where "x = CHR ''.''" "xs = CHR ''.'' # r" by (auto simp: prefix_def)
    then show ?thesis by (simp only: js_split_dot_Cons) simp
  next
    assume "js_includes xs ''..''"
    from Cons.IH [OF this] have i: "[] \<in> set (tl (js_split ''.'' xs))" .
    then have "[] \<in> set (js_split ''.'' xs)" by (rule list.set_sel(2) [rotated]) (use i in auto)
    with i show ?thesis by (simp only: js_split_dot_Cons) simp
  qed
qed

lemma last_concat_dots:
  "ls \<noteq> [] \<Longrightarrow> last ls \<noteq> [] \<Longrightarrow>
   last (l0 @ concat (map ((#) CHR ''.'') ls)) = last (last ls)"
proof (induction ls arbitrary: l0)
  case Nil
  then show ?case by simp
next
  case (Cons l ls)
  show ?case
  proof (cases ls)
    case Nil
    with Cons.prems show ?thesis by simp
  next
    case (Cons a b)
    with Cons.prems have "ls \<noteq> []" "last ls \<noteq> []" by auto
    from Cons.IH [OF this, of "l0 @ CHR ''.'' # l"] Cons show ?thesis by simp
  qed
qed

lemma case_rev_last:
  "xs \<noteq> [] \<Longrightarrow> (case rev xs of [] \<Rightarrow> False | t # x \<Rightarrow> P t) = P (last xs)"
  by (cases xs rule: rev_cases) simp_all

text \<open>What the pieces say about the checks of the predicate on the whole string.\<close>

lemma refine_from_labels:
  assumes s: "js_split ''.'' d = l0 # l # ls"
    and ok: "\<forall>x \<in> set (l0 # l # ls). label_ok x"
  shows "1 \<le> length d" "\<not> js_includes d ''..''" "\<not> startsWith d ''.''" "\<not> endsWith d ''.''"
    "startsWith d ''-'' \<longleftrightarrow> startsWith l0 ''-''"
    "endsWith d ''-'' \<longleftrightarrow> endsWith (last (l # ls)) ''-''"
proof -
  from js_split_join [of d] s have d: "d = l0 @ concat (map ((#) CHR ''.'') (l # ls))" by simp
  from ok have l0: "l0 \<noteq> []" and lne: "last (l # ls) \<noteq> []"
    and l0c: "\<forall>c \<in> set l0. is_label_char c"
    and llc: "\<forall>c \<in> set (last (l # ls)). is_label_char c"
    by (auto simp: label_ok_def)
  from d l0 show "1 \<le> length d" by (cases l0) auto
  show "\<not> js_includes d ''..''"
  proof
    assume "js_includes d ''..''"
    from js_includes_dots [OF this] s have "[] \<in> set (l # ls)" by simp
    with ok show False by (auto simp: label_ok_def)
  qed
  from d l0 have hd: "hd d = hd l0" and dne: "d \<noteq> []" by auto
  from l0 l0c have "is_label_char (hd l0)" by (cases l0) auto
  then have "hd l0 \<noteq> CHR ''.''" by (rule label_char_not_dot)
  with hd show "\<not> startsWith d ''.''" by (simp add: startsWith_char)
  from hd dne l0 show "startsWith d ''-'' \<longleftrightarrow> startsWith l0 ''-''"
    by (simp add: startsWith_char)
  have "last d = last (last (l # ls))"
    by (subst d) (rule last_concat_dots [OF _ lne], simp)
  then have last: "last d = last (last (l # ls))" .
  from lne llc have "is_label_char (last (last (l # ls)))"
    using last_in_set by blast
  then have "last (last (l # ls)) \<noteq> CHR ''.''" by (rule label_char_not_dot)
  with last show "\<not> endsWith d ''.''" by (simp add: endsWith_char)
  from last dne lne show "endsWith d ''-'' \<longleftrightarrow> endsWith (last (l # ls)) ''-''"
    by (simp add: endsWith_char)
qed

text \<open>
  C4, amended. The validator accepts exactly the strings \<open>label(.label)+\<close> in which
  every label has 1 to 63 characters, all ASCII letters, digits or hyphens, with no
  leading or trailing hyphen, and the top-level label is alphabetic and has at least two
  letters; it rejects every other string.
\<close>

theorem domainSchema_iff_spec: "domainSchema d \<longleftrightarrow> spec_domain 2 d"
proof (cases "2 \<le> length (js_split ''.'' d) \<and> (\<forall>l \<in> set (js_split ''.'' d). label_ok l)")
  case False
  then have "\<not> regex_test domain_re d" by (simp add: regex_test_domain_split)
  then have "\<not> domainSchema d" by (simp add: domainSchema_def)
  moreover have "\<not> spec_domain 2 d"
  proof
    assume "spec_domain 2 d"
    then have "2 \<le> length (js_split ''.'' d)"
      and "\<forall>l \<in> set (js_split ''.'' d). spec_label l"
      by (simp_all add: spec_domain_def Let_def list_all_iff)
    moreover have "label_ok l" if "spec_label l" for l
      using that by (cases l) (auto simp: spec_label_def label_ok_def list_all_iff)
    ultimately show False using False by blast
  qed
  ultimately show ?thesis by simp
next
  case True
  then obtain l0 l ls where s: "js_split ''.'' d = l0 # l # ls"
    by (cases "js_split ''.'' d"; cases "tl (js_split ''.'' d)") auto
  from True s have ok: "\<forall>x \<in> set (l0 # l # ls). label_ok x" by simp
  note r = refine_from_labels [OF s ok]
  from True have re: "regex_test domain_re d" by (simp add: regex_test_domain_split)
  have tld: "(case rev (js_split ''.'' d) of [] \<Rightarrow> False | t # x \<Rightarrow> regex_test tld_re t)
      \<longleftrightarrow> 2 \<le> length (last (l # ls)) \<and> list_all is_alpha (last (l # ls))"
    unfolding s using case_rev_last [of "l0 # l # ls" "regex_test tld_re"]
    by (simp add: regex_test_tld_re list_all_iff del: rev.simps)
  have parts: "list_all (\<lambda>part. length part > 0 \<and> length part \<le> 63 \<and>
                       \<not> startsWith part ''-'' \<and> \<not> endsWith part ''-'') (l0 # l # ls)
      \<longleftrightarrow> list_all spec_label (l0 # l # ls)"
  proof -
    have "(length x > 0 \<and> length x \<le> 63 \<and> \<not> startsWith x ''-'' \<and> \<not> endsWith x ''-'')
        \<longleftrightarrow> spec_label x" if "label_ok x" for x
      using that by (cases x) (auto simp: spec_label_def label_ok_def list_all_iff)
    with ok show ?thesis unfolding list_all_iff by blast
  qed
  have heads: "list_all spec_label (l0 # l # ls) \<Longrightarrow>
      \<not> startsWith l0 ''-'' \<and> \<not> endsWith (last (l # ls)) ''-''"
    by (auto simp: list_all_iff spec_label_def)
  have "domainSchema d \<longleftrightarrow>
      list_all spec_label (l0 # l # ls) \<and>
      2 \<le> length (last (l # ls)) \<and> list_all is_alpha (last (l # ls))"
    unfolding domainSchema_def domain_refine_def tld
    unfolding s parts using r re heads by blast
  also have "\<dots> \<longleftrightarrow> spec_domain 2 d"
    by (auto simp: spec_domain_def s Let_def)
  finally show ?thesis .
qed

theorem domainSchema_iff_spec_witness:
  "domainSchema ''mail.example-1.com'' \<and> spec_domain 2 ''mail.example-1.com'' \<and>
   \<not> domainSchema ''a..com'' \<and> \<not> spec_domain 2 ''a..com'' \<and>
   \<not> domainSchema ''.example.com'' \<and> \<not> spec_domain 2 ''.example.com'' \<and>
   \<not> domainSchema ''example.123'' \<and> \<not> spec_domain 2 ''example.123''"
proof -
  have "domainSchema ''mail.example-1.com''" "\<not> domainSchema ''a..com''"
    "\<not> domainSchema ''.example.com''" "\<not> domainSchema ''example.123''"
    by code_simp+
  then show ?thesis
    using domainSchema_iff_spec [of "''mail.example-1.com''"]
      domainSchema_iff_spec [of "''a..com''"]
      domainSchema_iff_spec [of "''.example.com''"]
      domainSchema_iff_spec [of "''example.123''"]
    by simp
qed

text \<open>
  \<open>a.b\<close> has two labels of one letter each and an alphabetic top-level label, and the
  validator rejects it.
\<close>

theorem domainSchema_short_tld_counterexample:
  "spec_domain 1 ''a.b'' \<and> \<not> domainSchema ''a.b''"
  by code_simp

section \<open>Properties: forward stripping\<close>






















































end
